theory Spec2Isabelle
  imports Main "HOL-Library.Sublist"
begin

section \<open>Outdoor job scraper: strings, documents and exceptions\<close>

text \<open>
  The development follows \<^verbatim>\<open>outdoor_job_scraper.py\<close>. Python exceptions are values
  of the type \<open>py_exn\<close>; a function that may raise returns \<open>py_exn + 'a\<close> with \<open>Inl\<close>
  the exception. Python strings are modelled as \<open>string\<close>, read as ASCII text.
\<close>

datatype py_exn = KeyError | ValueError | OSError | OtherError

subsection \<open>String operations of Python\<close>

text \<open>
  \<^verbatim>\<open>str.lower()\<close> on ASCII text: the code of an upper-case letter is raised by 32,
  which sets the bit of weight 32 of the character.
\<close>

definition lower_char :: "char \<Rightarrow> char" where
  "lower_char c =
     (if c \<in> set ''ABCDEFGHIJKLMNOPQRSTUVWXYZ''
      then (case c of Char b0 b1 b2 b3 b4 b5 b6 b7 \<Rightarrow> Char b0 b1 b2 b3 b4 True b6 b7)
      else c)"

definition lower :: "string \<Rightarrow> string" where
  "lower s = map lower_char s"

text \<open>\<open>py_in k s\<close> is the substring test \<^verbatim>\<open>k in s\<close>.\<close>

fun py_in :: "string \<Rightarrow> string \<Rightarrow> bool" where
  "py_in k [] = (k = [])"
| "py_in k (c # s) = (prefix k (c # s) \<or> py_in k s)"

text \<open>The ASCII characters for which \<^verbatim>\<open>str.isspace()\<close> holds.\<close>

definition is_space :: "char \<Rightarrow> bool" where
  "is_space c = (c \<in> set [CHR 0x09, CHR 0x0A, CHR 0x0B, CHR 0x0C, CHR 0x0D,
                            CHR 0x1C, CHR 0x1D, CHR 0x1E, CHR 0x1F, CHR 0x20])"

text \<open>\<^verbatim>\<open>str.strip()\<close>.\<close>

definition strip :: "string \<Rightarrow> string" where
  "strip s = rev (dropWhile is_space (rev (dropWhile is_space s)))"

text \<open>The maximal runs of non-whitespace characters of a string, in order.\<close>

fun split_acc :: "string \<Rightarrow> string \<Rightarrow> string list" where
  "split_acc [] w = (if w = [] then [] else [w])"
| "split_acc (c # s) w =
     (if is_space c then (if w = [] then split_acc s [] else w # split_acc s [])
      else split_acc s (w @ [c]))"

definition split_ws :: "string \<Rightarrow> string list" where
  "split_ws s = split_acc s []"

text \<open>\<^verbatim>\<open>sep.join(xs)\<close>.\<close>

fun str_join :: "string \<Rightarrow> string list \<Rightarrow> string" where
  "str_join sep [] = []"
| "str_join sep [x] = x"
| "str_join sep (x # y # xs) = x @ sep @ str_join sep (y # xs)"

subsection \<open>Parsed documents\<close>

text \<open>
  A parsed document (a \<^verbatim>\<open>BeautifulSoup\<close> object) is a tree of tags and text nodes.
  A tag has a name, its attribute dictionary as an association list, and its children.
\<close>

datatype node = NavigableString string | Tag string "(string \<times> string) list" "node list"

text \<open>The tags of a subtree in document order, the root first.\<close>

fun tags_of :: "node \<Rightarrow> node list" where
  "tags_of (NavigableString s) = []"
| "tags_of (Tag n a cs) = Tag n a cs # concat (map tags_of cs)"

text \<open>The tags below an element, which are what \<^verbatim>\<open>find_all\<close> and \<^verbatim>\<open>find\<close> search.\<close>

fun descendants :: "node \<Rightarrow> node list" where
  "descendants (NavigableString s) = []"
| "descendants (Tag n a cs) = concat (map tags_of cs)"

definition find_all :: "node \<Rightarrow> (node \<Rightarrow> bool) \<Rightarrow> node list" where
  "find_all e sel = filter sel (descendants e)"

definition find_tag :: "node \<Rightarrow> (node \<Rightarrow> bool) \<Rightarrow> node option" where
  "find_tag e sel = (case find_all e sel of [] \<Rightarrow> None | x # _ \<Rightarrow> Some x)"

text \<open>\<^verbatim>\<open>tag[key]\<close> raises \<^verbatim>\<open>KeyError\<close> when the attribute is missing.\<close>

fun attr :: "node \<Rightarrow> string \<Rightarrow> string option" where
  "attr (NavigableString s) k = None"
| "attr (Tag n a cs) k = map_of a k"

text \<open>
  The selectors of the source: \<open>tag n\<close> is \<^verbatim>\<open>find('n')\<close>, \<open>tag_class n c\<close> is
  \<^verbatim>\<open>find('n', class_='c')\<close> (the class attribute is a whitespace-separated list of
  classes), \<open>tag_attr n k\<close> is \<^verbatim>\<open>find('n', {'k': True})\<close> (the attribute is present).
\<close>

fun tag :: "string \<Rightarrow> node \<Rightarrow> bool" where
  "tag n (NavigableString s) = False"
| "tag n (Tag m a cs) = (m = n)"

definition tag_class :: "string \<Rightarrow> string \<Rightarrow> node \<Rightarrow> bool" where
  "tag_class n c e =
     (tag n e \<and> (case attr e ''class'' of None \<Rightarrow> False | Some v \<Rightarrow> c \<in> set (split_ws v)))"

definition tag_attr :: "string \<Rightarrow> string \<Rightarrow> node \<Rightarrow> bool" where
  "tag_attr n k e = (tag n e \<and> attr e k \<noteq> None)"

text \<open>
  \<^verbatim>\<open>re.compile(r'career|job|employment', re.I).search(s)\<close>: one of the three words
  occurs in \<open>s\<close>, letter case ignored.
\<close>

definition career_re_search :: "string \<Rightarrow> bool" where
  "career_re_search s =
     (py_in ''career'' (lower s) \<or> py_in ''job'' (lower s) \<or> py_in ''employment'' (lower s))"

text \<open>\<^verbatim>\<open>find_all('a', href=re.compile(r'career|job|employment', re.I))\<close>.\<close>

definition career_link :: "node \<Rightarrow> bool" where
  "career_link e =
     (tag ''a'' e \<and> (case attr e ''href'' of None \<Rightarrow> False | Some v \<Rightarrow> career_re_search v))"

text \<open>
  \<^verbatim>\<open>get_text(strip=True)\<close>: the text nodes of the subtree in document order, each
  stripped, the empty ones dropped, joined without a separator.
\<close>

fun strings_of :: "node \<Rightarrow> string list" where
  "strings_of (NavigableString s) = [s]"
| "strings_of (Tag n a cs) = concat (map strings_of cs)"

definition get_text :: "node \<Rightarrow> string" where
  "get_text e = concat (filter (\<lambda>s. s \<noteq> []) (map strip (strings_of e)))"

text \<open>
  \<^verbatim>\<open>x or y\<close> on the results of \<^verbatim>\<open>find\<close>: a tag is always true, \<^verbatim>\<open>None\<close> is false.
\<close>

definition or_else :: "'a option \<Rightarrow> 'a option \<Rightarrow> 'a option" where
  "or_else x y = (case x of Some v \<Rightarrow> Some v | None \<Rightarrow> y)"

section \<open>The fetcher\<close>

subsection \<open>The network and the effects of a fetch\<close>

text \<open>
  What \<^verbatim>\<open>self.session.get(url, timeout=10)\<close>, \<^verbatim>\<open>raise_for_status()\<close> and the
  parser do on one attempt: they deliver a document, raise a
  \<^verbatim>\<open>requests.exceptions.RequestException\<close>, or raise something else. The network
  is a function of the URL and of the attempt number of the call.
\<close>

datatype outcome = Response node | RequestException | OtherException

text \<open>
  The observable effects of \<^verbatim>\<open>make_request\<close>, in the order in which they happen:
  \<open>DelayRequest\<close> is \<^verbatim>\<open>self.delay_request()\<close> (a sleep of one second before every
  attempt), \<open>HttpGet\<close> the request, \<open>LogWarning a m\<close> the warning
  \<^verbatim>\<open>Request failed (attempt a/m)\<close>, \<open>Backoff n\<close> the call \<^verbatim>\<open>time.sleep(n)\<close> of the
  exponential backoff and \<open>LogError\<close> the final error message.
\<close>

datatype event =
    DelayRequest
  | HttpGet string
  | LogWarning nat int
  | Backoff nat
  | LogError string int

text \<open>
  The loop \<^verbatim>\<open>for attempt in range(max_retries)\<close> over the remaining attempt numbers.
  A \<^verbatim>\<open>RequestException\<close> is caught; any other exception leaves the function.
\<close>

fun make_request_loop ::
  "(string \<Rightarrow> nat \<Rightarrow> outcome) \<Rightarrow> string \<Rightarrow> int \<Rightarrow> nat list
    \<Rightarrow> (py_exn + node option) \<times> event list" where
  "make_request_loop net url max_retries [] = (Inr None, [])"
| "make_request_loop net url max_retries (attempt # rest) =
     (case net url attempt of
        Response page \<Rightarrow> (Inr (Some page), [DelayRequest, HttpGet url])
      | OtherException \<Rightarrow> (Inl OtherError, [DelayRequest, HttpGet url])
      | RequestException \<Rightarrow>
          if int attempt < max_retries - 1 then
            (let (r, evs) = make_request_loop net url max_retries rest
             in (r, [DelayRequest, HttpGet url, LogWarning (attempt + 1) max_retries,
                     Backoff (2 ^ attempt)] @ evs))
          else
            (Inr None, [DelayRequest, HttpGet url, LogWarning (attempt + 1) max_retries,
                        LogError url max_retries]))"

text \<open>\<^verbatim>\<open>range(max_retries)\<close> is empty when \<^verbatim>\<open>max_retries\<close> is not positive.\<close>

definition range_py :: "int \<Rightarrow> nat list" where
  "range_py n = [0..<nat n]"

definition make_request ::
  "(string \<Rightarrow> nat \<Rightarrow> outcome) \<Rightarrow> string \<Rightarrow> int \<Rightarrow> (py_exn + node option) \<times> event list" where
  "make_request net url max_retries = make_request_loop net url max_retries (range_py max_retries)"

text \<open>The backoff sleeps among the effects of a call, in order.\<close>

fun backoff_waits :: "event list \<Rightarrow> nat list" where
  "backoff_waits [] = []"
| "backoff_waits (Backoff n # evs) = n # backoff_waits evs"
| "backoff_waits (_ # evs) = backoff_waits evs"


section \<open>Job records and the extractors\<close>

record JobListing =
  title :: string
  company :: string
  location :: string
  description :: string
  url :: string
  date_posted :: "string option"
  experience_level :: "string option"
  source :: string

text \<open>
  What the program does not compute by itself: the network, the library function
  \<^verbatim>\<open>urljoin\<close> (which raises \<^verbatim>\<open>ValueError\<close> on a malformed URL), the clock as read by
  \<^verbatim>\<open>datetime.now().strftime('%Y%m%d_%H%M%S')\<close>, and whether a file can be written.
\<close>

record world =
  net :: "string \<Rightarrow> nat \<Rightarrow> outcome"
  urljoin :: "string \<Rightarrow> string \<Rightarrow> py_exn + string"
  now :: string
  can_write :: "string \<Rightarrow> bool"

subsection \<open>Indeed\<close>

definition indeed_base_url :: string where
  "indeed_base_url = ''https://www.indeed.com/jobs''"

definition indeed_params :: "(string \<times> string) list" where
  "indeed_params =
     [(''q'', ''park ranger OR outdoor OR nature OR environmental OR conservation OR wildlife OR naturalist OR recreation coordinator''),
      (''l'', ''Tampa, FL''),
      (''radius'', ''25''),
      (''jt'', ''fulltime''),
      (''sort'', ''date'')]"

definition indeed_search_url :: string where
  "indeed_search_url =
     indeed_base_url @ ''?'' @ str_join ''&'' (map (\<lambda>(k, v). k @ ''='' @ v) indeed_params)"

text \<open>
  The element that carries the title of a card, and the URL taken from it:
  \<^verbatim>\<open>urljoin(base_url, title_elem.find('a')['href']) if title_elem.find('a') else ""\<close>.
\<close>

definition indeed_title_elem :: "node \<Rightarrow> node option" where
  "indeed_title_elem job_card =
     or_else (find_tag job_card (tag_class ''h2'' ''jobTitle'')) (find_tag job_card (tag_attr ''a'' ''data-jk''))"

definition indeed_job_url :: "(string \<Rightarrow> string \<Rightarrow> py_exn + string) \<Rightarrow> node \<Rightarrow> py_exn + string" where
  "indeed_job_url uj title_elem =
     (case find_tag title_elem (tag ''a'') of
        None \<Rightarrow> Inr ''''
      | Some a \<Rightarrow> (case attr a ''href'' of
                     None \<Rightarrow> Inl KeyError
                   | Some href \<Rightarrow> uj indeed_base_url href))"

text \<open>
  The body of the loop over the cards. \<open>Inr None\<close> is the \<^verbatim>\<open>continue\<close> of a card
  without a title element, \<open>Inl\<close> an exception raised inside the \<^verbatim>\<open>try\<close>.
\<close>

definition indeed_card ::
  "(string \<Rightarrow> string \<Rightarrow> py_exn + string) \<Rightarrow> node \<Rightarrow> py_exn + JobListing option" where
  "indeed_card uj job_card =
     (case indeed_title_elem job_card of
        None \<Rightarrow> Inr None
      | Some title_elem \<Rightarrow>
          let title' = get_text title_elem;
              company_elem = or_else (find_tag job_card (tag_class ''span'' ''companyName''))
                                     (find_tag job_card (tag_class ''div'' ''company_location''));
              company' = (case company_elem of Some e \<Rightarrow> get_text e | None \<Rightarrow> ''Unknown Company'');
              location_elem = or_else (find_tag job_card (tag_class ''div'' ''companyLocation''))
                                      (find_tag job_card (tag_class ''span'' ''location''));
              location' = (case location_elem of Some e \<Rightarrow> get_text e | None \<Rightarrow> ''Tampa Bay Area'');
              desc_elem = or_else (find_tag job_card (tag_class ''div'' ''job-snippet''))
                                  (find_tag job_card (tag_class ''span'' ''summary''));
              description' = (case desc_elem of Some e \<Rightarrow> take 200 (get_text e)
                              | None \<Rightarrow> ''No description available'')
          in (case indeed_job_url uj title_elem of
                Inl e \<Rightarrow> Inl e
              | Inr job_url \<Rightarrow>
                  let date_elem = or_else (find_tag job_card (tag_class ''span'' ''date''))
                                          (find_tag job_card (tag_class ''span'' ''postedDate''));
                      date_posted' = (case date_elem of Some e \<Rightarrow> Some (get_text e) | None \<Rightarrow> None)
                  in Inr (Some \<lparr>title = title', company = company', location = location',
                                 description = description', url = job_url,
                                 date_posted = date_posted', experience_level = None,
                                 source = ''Indeed.com''\<rparr>)))"

text \<open>
  \<^verbatim>\<open>for card in job_cards[:20]\<close>: a card whose body raises is logged and skipped
  (\<^verbatim>\<open>except Exception ... continue\<close>).
\<close>

fun scrape_indeed_loop ::
  "(string \<Rightarrow> string \<Rightarrow> py_exn + string) \<Rightarrow> node list \<Rightarrow> JobListing list \<Rightarrow> JobListing list" where
  "scrape_indeed_loop uj [] jobs = jobs"
| "scrape_indeed_loop uj (job_card # job_cards) jobs =
     (case indeed_card uj job_card of
        Inr (Some job) \<Rightarrow> scrape_indeed_loop uj job_cards (jobs @ [job])
      | Inr None \<Rightarrow> scrape_indeed_loop uj job_cards jobs
      | Inl e \<Rightarrow> scrape_indeed_loop uj job_cards jobs)"

text \<open>
  \<^verbatim>\<open>soup.find_all('div', class_='job_seen_beacon') or soup.find_all('div', {'data-jk': True})\<close>:
  an empty result list is false.
\<close>

definition indeed_job_cards :: "node \<Rightarrow> node list" where
  "indeed_job_cards soup =
     (case find_all soup (tag_class ''div'' ''job_seen_beacon'') of
        [] \<Rightarrow> find_all soup (tag_attr ''div'' ''data-jk'')
      | cards \<Rightarrow> cards)"

text \<open>The extraction from a fetched page: everything after \<^verbatim>\<open>make_request\<close>.\<close>

definition indeed_jobs :: "(string \<Rightarrow> string \<Rightarrow> py_exn + string) \<Rightarrow> node \<Rightarrow> JobListing list" where
  "indeed_jobs uj soup = scrape_indeed_loop uj (take 20 (indeed_job_cards soup)) []"

text \<open>
  \<^verbatim>\<open>scrape_indeed\<close> calls \<^verbatim>\<open>make_request\<close> outside of any \<^verbatim>\<open>try\<close>: an exception
  that \<^verbatim>\<open>make_request\<close> lets through leaves \<^verbatim>\<open>scrape_indeed\<close> too.
\<close>

definition scrape_indeed :: "world \<Rightarrow> py_exn + JobListing list" where
  "scrape_indeed w =
     (case fst (make_request (net w) indeed_search_url 3) of
        Inl e \<Rightarrow> Inl e
      | Inr None \<Rightarrow> Inr []
      | Inr (Some soup) \<Rightarrow> Inr (indeed_jobs (urljoin w) soup))"

subsection \<open>County, city and state park sites\<close>

text \<open>\<^verbatim>\<open>any(keyword in title.lower() for keyword in keywords)\<close>.\<close>

definition any_keyword :: "string list \<Rightarrow> string \<Rightarrow> bool" where
  "any_keyword keywords title' = list_ex (\<lambda>keyword. py_in keyword (lower title')) keywords"

text \<open>
  The five park extractors run the same loop over the first ten career links; they
  differ in the page, the keyword list and the constant fields of the record, which
  \<open>mk\<close> fills in. The whole body is inside one \<^verbatim>\<open>try\<close>: an exception ends the loop,
  and the records appended so far are returned.
\<close>

fun scrape_links_loop ::
  "(string \<Rightarrow> string \<Rightarrow> py_exn + string) \<Rightarrow> string \<Rightarrow> string list
    \<Rightarrow> (string \<Rightarrow> string \<Rightarrow> JobListing) \<Rightarrow> node list \<Rightarrow> JobListing list \<Rightarrow> JobListing list" where
  "scrape_links_loop uj page_url keywords mk [] jobs = jobs"
| "scrape_links_loop uj page_url keywords mk (link # links) jobs =
     (let title' = get_text link in
      if any_keyword keywords title' then
        (case attr link ''href'' of
           None \<Rightarrow> jobs
         | Some href \<Rightarrow>
             (case uj page_url href of
                Inl e \<Rightarrow> jobs
              | Inr job_url \<Rightarrow>
                  scrape_links_loop uj page_url keywords mk links (jobs @ [mk title' job_url])))
      else scrape_links_loop uj page_url keywords mk links jobs)"

definition scrape_links ::
  "world \<Rightarrow> string \<Rightarrow> string list \<Rightarrow> (string \<Rightarrow> string \<Rightarrow> JobListing) \<Rightarrow> JobListing list" where
  "scrape_links w page_url keywords mk =
     (case fst (make_request (net w) page_url 3) of
        Inl e \<Rightarrow> []
      | Inr None \<Rightarrow> []
      | Inr (Some soup) \<Rightarrow>
          scrape_links_loop (urljoin w) page_url keywords mk (take 10 (find_all soup career_link)) [])"

definition hillsborough_url :: string where
  "hillsborough_url = ''https://www.hillsboroughcounty.org/en/government/departments/human-resources''"

definition scrape_hillsborough_parks :: "world \<Rightarrow> JobListing list" where
  "scrape_hillsborough_parks w =
     scrape_links w hillsborough_url
       [''park'', ''recreation'', ''outdoor'', ''nature'', ''environmental'']
       (\<lambda>title' job_url.
          \<lparr>title = title', company = ''Hillsborough County'',
           location = ''Hillsborough County, FL'',
           description = ''County park and recreation position'', url = job_url,
           date_posted = None, experience_level = None,
           source = ''Hillsborough County Parks''\<rparr>)"

definition pinellas_url :: string where
  "pinellas_url = ''https://www.pinellas.gov/Government/Human-Resources''"

definition scrape_pinellas_parks :: "world \<Rightarrow> JobListing list" where
  "scrape_pinellas_parks w =
     scrape_links w pinellas_url
       [''park'', ''recreation'', ''outdoor'', ''nature'', ''environmental'']
       (\<lambda>title' job_url.
          \<lparr>title = title', company = ''Pinellas County'',
           location = ''Pinellas County, FL'',
           description = ''County park and recreation position'', url = job_url,
           date_posted = None, experience_level = None,
           source = ''Pinellas County Parks''\<rparr>)"

definition tampa_url :: string where
  "tampa_url = ''https://www.tampa.gov/careers''"

definition scrape_tampa_parks :: "world \<Rightarrow> JobListing list" where
  "scrape_tampa_parks w =
     scrape_links w tampa_url
       [''park'', ''recreation'', ''outdoor'', ''nature'', ''environmental'']
       (\<lambda>title' job_url.
          \<lparr>title = title', company = ''City of Tampa'',
           location = ''Tampa, FL'',
           description = ''City park and recreation position'', url = job_url,
           date_posted = None, experience_level = None,
           source = ''Tampa Parks & Recreation''\<rparr>)"

definition stpete_url :: string where
  "stpete_url = ''https://www.stpete.org/government/city_departments/human_resources/employment_opportunities.php''"

definition scrape_stpete_parks :: "world \<Rightarrow> JobListing list" where
  "scrape_stpete_parks w =
     scrape_links w stpete_url
       [''park'', ''recreation'', ''outdoor'', ''nature'', ''environmental'']
       (\<lambda>title' job_url.
          \<lparr>title = title', company = ''City of St. Petersburg'',
           location = ''St. Petersburg, FL'',
           description = ''City park and recreation position'', url = job_url,
           date_posted = None, experience_level = None,
           source = ''St. Pete Parks & Recreation''\<rparr>)"

definition fl_state_parks_url :: string where
  "fl_state_parks_url = ''https://www.floridastateparks.org/employment''"

definition scrape_fl_state_parks :: "world \<Rightarrow> JobListing list" where
  "scrape_fl_state_parks w =
     scrape_links w fl_state_parks_url
       [''park'', ''ranger'', ''recreation'', ''outdoor'', ''nature'', ''environmental'']
       (\<lambda>title' job_url.
          \<lparr>title = title', company = ''Florida State Parks'',
           location = ''Tampa Bay Area, FL'',
           description = ''State park position'', url = job_url,
           date_posted = None, experience_level = None,
           source = ''Florida State Parks''\<rparr>)"

definition scrape_county_parks :: "world \<Rightarrow> JobListing list" where
  "scrape_county_parks w =
     (let jobs = [];
          jobs = jobs @ scrape_hillsborough_parks w;
          jobs = jobs @ scrape_pinellas_parks w;
          jobs = jobs @ scrape_tampa_parks w;
          jobs = jobs @ scrape_stpete_parks w;
          jobs = jobs @ scrape_fl_state_parks w
      in jobs)"

section \<open>The aggregator and the persister\<close>

text \<open>The state of an \<^verbatim>\<open>OutdoorJobScraper\<close> object; \<^verbatim>\<open>__init__\<close> starts with no jobs.\<close>

record scraper =
  email_address :: string
  jobs :: "JobListing list"

definition init_scraper :: "string \<Rightarrow> scraper" where
  "init_scraper email = \<lparr>email_address = email, jobs = []\<rparr>"

definition create_sample_jobs :: "JobListing list" where
  "create_sample_jobs =
     [\<lparr>title = ''Park Ranger - Entry Level'',
       company = ''Hillsborough County Parks'',
       location = ''Tampa, FL'',
       description = ''Assist with park maintenance, visitor services, and environmental education programs. Great opportunity for outdoor enthusiasts!'',
       url = ''https://www.hillsboroughcounty.org/jobs'',
       date_posted = Some ''Recent'', experience_level = None,
       source = ''Hillsborough County Parks''\<rparr>,
      \<lparr>title = ''Environmental Specialist'',
       company = ''Pinellas County'',
       location = ''St. Petersburg, FL'',
       description = ''Work on environmental conservation projects and outdoor education programs in beautiful Pinellas County parks.'',
       url = ''https://www.pinellas.gov/jobs'',
       date_posted = Some ''Recent'', experience_level = None,
       source = ''Pinellas County Parks''\<rparr>,
      \<lparr>title = ''Recreation Coordinator'',
       company = ''City of Tampa'',
       location = ''Tampa, FL'',
       description = ''Plan and coordinate outdoor recreational activities and nature programs for city residents.'',
       url = ''https://www.tampa.gov/jobs'',
       date_posted = Some ''Recent'', experience_level = None,
       source = ''Tampa Parks & Recreation''\<rparr>,
      \<lparr>title = ''Wildlife Biologist Assistant'',
       company = ''Florida State Parks'',
       location = ''Tampa Bay Area, FL'',
       description = ''Support wildlife research and conservation efforts in state parks throughout the Tampa Bay region.'',
       url = ''https://www.floridastateparks.org/jobs'',
       date_posted = Some ''Recent'', experience_level = None,
       source = ''Florida State Parks''\<rparr>,
      \<lparr>title = ''Outdoor Education Instructor'',
       company = ''Tampa Bay Nature Center'',
       location = ''Tampa, FL'',
       description = ''Lead educational programs about local wildlife and ecosystems for school groups and families.'',
       url = ''https://example.com/apply'',
       date_posted = Some ''Recent'', experience_level = None,
       source = ''Indeed.com''\<rparr>]"

subsection \<open>The JSON backup\<close>

text \<open>
  \<^verbatim>\<open>asdict(job)\<close>: the dictionary of the fields in declaration order. A value is a
  string or \<^verbatim>\<open>None\<close>.
\<close>

definition asdict :: "JobListing \<Rightarrow> (string \<times> string option) list" where
  "asdict job =
     [(''title'', Some (title job)),
      (''company'', Some (company job)),
      (''location'', Some (location job)),
      (''description'', Some (description job)),
      (''url'', Some (url job)),
      (''date_posted'', date_posted job),
      (''experience_level'', experience_level job),
      (''source'', Some (source job))]"

text \<open>
  \<^verbatim>\<open>json.dump(jobs_data, f, indent=2, ensure_ascii=False)\<close> on a list of such
  dictionaries. A string is written between double quotes with the double quote, the
  backslash and the control characters escaped; \<^verbatim>\<open>None\<close> is written \<^verbatim>\<open>null\<close>. With
  an indentation, every item and every member starts on a line of its own.
\<close>

definition hex_digit :: "nat \<Rightarrow> char" where
  "hex_digit n = ''0123456789abcdef'' ! n"

definition json_escape :: "char \<Rightarrow> string" where
  "json_escape c =
     (if c = CHR 0x22 then [CHR 0x5C, CHR 0x22]
      else if c = CHR 0x5C then [CHR 0x5C, CHR 0x5C]
      else if c = CHR 0x0A then [CHR 0x5C, CHR ''n'']
      else if c = CHR 0x0D then [CHR 0x5C, CHR ''r'']
      else if c = CHR 0x09 then [CHR 0x5C, CHR ''t'']
      else if c = CHR 0x08 then [CHR 0x5C, CHR ''b'']
      else if c = CHR 0x0C then [CHR 0x5C, CHR ''f'']
      else if (of_char c :: nat) < 0x20 then
        [CHR 0x5C, CHR ''u'', CHR ''0'', CHR ''0'',
         hex_digit (of_char c div 16), hex_digit (of_char c mod 16)]
      else [c])"

definition encode_basestring :: "string \<Rightarrow> string" where
  "encode_basestring s = [CHR 0x22] @ concat (map json_escape s) @ [CHR 0x22]"

definition json_value :: "string option \<Rightarrow> string" where
  "json_value v = (case v of None \<Rightarrow> ''null'' | Some s \<Rightarrow> encode_basestring s)"

definition newline_indent :: "nat \<Rightarrow> string" where
  "newline_indent level = CHR 0x0A # replicate (2 * level) (CHR 0x20)"

definition json_member :: "string \<times> string option \<Rightarrow> string" where
  "json_member kv = encode_basestring (fst kv) @ '': '' @ json_value (snd kv)"

definition json_dict :: "(string \<times> string option) list \<Rightarrow> string" where
  "json_dict d =
     (if d = [] then ''{}''
      else ''{'' @ newline_indent 2 @ str_join ('','' @ newline_indent 2) (map json_member d)
           @ newline_indent 1 @ ''}'')"

definition json_dumps :: "(string \<times> string option) list list \<Rightarrow> string" where
  "json_dumps ds =
     (if ds = [] then ''[]''
      else ''['' @ newline_indent 1 @ str_join ('','' @ newline_indent 1) (map json_dict ds)
           @ newline_indent 0 @ '']'')"

text \<open>
  \<^verbatim>\<open>save_to_json\<close> writes the backup file; the files are a map from names to
  contents. Opening or writing the file may raise, and nothing catches that.
\<close>

definition save_to_json ::
  "world \<Rightarrow> scraper \<Rightarrow> string option \<Rightarrow> (string \<rightharpoonup> string) \<Rightarrow> py_exn + (string \<rightharpoonup> string)" where
  "save_to_json w self filename files =
     (let filename' = (case filename of
                         None \<Rightarrow> ''outdoor_jobs_'' @ now w @ ''.json''
                       | Some f \<Rightarrow> f);
          jobs_data = map asdict (jobs self)
      in if can_write w filename' then Inr (files(filename' \<mapsto> json_dumps jobs_data))
         else Inl OSError)"

subsection \<open>The complete run\<close>

text \<open>
  \<^verbatim>\<open>run_scraping\<close> extends \<^verbatim>\<open>self.jobs\<close> and returns it: the value returned is the
  \<open>jobs\<close> field of the resulting state.
\<close>

definition run_scraping ::
  "world \<Rightarrow> scraper \<Rightarrow> (string \<rightharpoonup> string) \<Rightarrow> py_exn + scraper \<times> (string \<rightharpoonup> string)" where
  "run_scraping w self files =
     (case scrape_indeed w of
        Inl e \<Rightarrow> Inl e
      | Inr indeed_jobs' \<Rightarrow>
          let self = self\<lparr>jobs := jobs self @ indeed_jobs'\<rparr>;
              park_jobs = scrape_county_parks w;
              self = self\<lparr>jobs := jobs self @ park_jobs\<rparr>;
              self = (if length (jobs self) = 0
                      then self\<lparr>jobs := jobs self @ create_sample_jobs\<rparr> else self)
          in (case save_to_json w self None files of
                Inl e \<Rightarrow> Inl e
              | Inr files' \<Rightarrow> Inr (self, files')))"

section \<open>The digest\<close>

text \<open>\<^verbatim>\<open>str(n)\<close> of a natural number.\<close>

definition digit_char :: "nat \<Rightarrow> char" where
  "digit_char n = ''0123456789'' ! n"

fun str_nat :: "nat \<Rightarrow> string" where
  "str_nat n = (if n < 10 then [digit_char n] else str_nat (n div 10) @ [digit_char (n mod 10)])"

text \<open>
  The dictionary \<^verbatim>\<open>jobs_by_source\<close> is the list of its items in insertion order, the
  keys distinct. One round of the grouping loop of \<^verbatim>\<open>create_email\<close>: a new source gets
  an empty list at the end of the dictionary, then the job is appended to the list of
  its source.
\<close>

definition group_step ::
  "(string \<times> JobListing list) list \<Rightarrow> JobListing \<Rightarrow> (string \<times> JobListing list) list" where
  "group_step jobs_by_source job =
     (let src = source job;
          d = (if src \<notin> set (map fst jobs_by_source) then jobs_by_source @ [(src, [])]
               else jobs_by_source)
      in map (\<lambda>(k, v). if k = src then (k, v @ [job]) else (k, v)) d)"

definition group_by_source :: "JobListing list \<Rightarrow> (string \<times> JobListing list) list" where
  "group_by_source job_list = foldl group_step [] job_list"

text \<open>The fixed parts of the HTML template of \<^verbatim>\<open>_generate_html_content\<close>.\<close>

definition html_head_before_date :: string where
  \<open>html_head_before_date =
     ''\<newline>'' @ ''        <!DOCTYPE html>\<newline>'' @ ''        <html>\<newline>'' @
     ''        <head>\<newline>'' @ ''            <meta charset="utf-8">\<newline>'' @
     ''            <meta name="viewport" content="width=device-width, initial-scale=1.0">\<newline>'' @
     ''            <title>Outdoor Jobs in Tampa Bay</title>\<newline>'' @
     ''            <style>\<newline>'' @ ''                body {\<newline>'' @
     ''                    font-family: -apple-system, BlinkMacSystemFont, '' @ [CHR 0x27] @
     ''Segoe UI'' @ [CHR 0x27] @ '', Roboto, sans-serif;\<newline>'' @
     ''                    line-height: 1.6;\<newline>'' @
     ''                    color: #333;\<newline>'' @
     ''                    max-width: 600px;\<newline>'' @
     ''                    margin: 0 auto;\<newline>'' @
     ''                    padding: 20px;\<newline>'' @
     ''                    background-color: #f5f5f5;\<newline>'' @
     ''                }\<newline>'' @ ''                .container {\<newline>'' @
     ''                    background-color: white;\<newline>'' @
     ''                    padding: 20px;\<newline>'' @
     ''                    border-radius: 8px;\<newline>'' @
     ''                    box-shadow: 0 2px 10px rgba(0,0,0,0.1);\<newline>'' @
     ''                }\<newline>'' @ ''                .header {\<newline>'' @
     ''                    text-align: center;\<newline>'' @
     ''                    border-bottom: 3px solid #2E7D32;\<newline>'' @
     ''                    padding-bottom: 20px;\<newline>'' @
     ''                    margin-bottom: 30px;\<newline>'' @ ''                }\<newline>'' @
     ''                .header h1 {\<newline>'' @
     ''                    color: #2E7D32;\<newline>'' @
     ''                    margin: 0;\<newline>'' @
     ''                    font-size: 24px;\<newline>'' @ ''                }\<newline>'' @
     ''                .header p {\<newline>'' @ ''                    color: #666;\<newline>'' @
     ''                    margin: 10px 0 0 0;\<newline>'' @ ''                }\<newline>'' @
     ''                .summary {\<newline>'' @
     ''                    background-color: #E8F5E8;\<newline>'' @
     ''                    padding: 15px;\<newline>'' @
     ''                    border-radius: 5px;\<newline>'' @
     ''                    margin-bottom: 30px;\<newline>'' @
     ''                    border-left: 4px solid #2E7D32;\<newline>'' @
     ''                }\<newline>'' @ ''                .source-section {\<newline>'' @
     ''                    margin-bottom: 40px;\<newline>'' @ ''                }\<newline>'' @
     ''                .source-header {\<newline>'' @
     ''                    background-color: #2E7D32;\<newline>'' @
     ''                    color: white;\<newline>'' @
     ''                    padding: 10px 15px;\<newline>'' @
     ''                    border-radius: 5px 5px 0 0;\<newline>'' @
     ''                    margin: 0;\<newline>'' @
     ''                    font-size: 18px;\<newline>'' @
     ''                    font-weight: bold;\<newline>'' @ ''                }\<newline>'' @
     ''                .job {\<newline>'' @
     ''                    border: 1px solid #ddd;\<newline>'' @
     ''                    border-top: none;\<newline>'' @
     ''                    padding: 15px;\<newline>'' @
     ''                    background-color: #fafafa;\<newline>'' @
     ''                }\<newline>'' @ ''                .job:last-child {\<newline>'' @
     ''                    border-radius: 0 0 5px 5px;\<newline>'' @
     ''                }\<newline>'' @ ''                .job-title {\<newline>'' @
     ''                    font-size: 16px;\<newline>'' @
     ''                    font-weight: bold;\<newline>'' @
     ''                    color: #2E7D32;\<newline>'' @
     ''                    margin: 0 0 5px 0;\<newline>'' @ ''                }\<newline>'' @
     ''                .job-company {\<newline>'' @
     ''                    font-weight: bold;\<newline>'' @
     ''                    color: #555;\<newline>'' @
     ''                    margin: 0 0 5px 0;\<newline>'' @ ''                }\<newline>'' @
     ''                .job-location {\<newline>'' @
     ''                    color: #666;\<newline>'' @
     ''                    font-size: 14px;\<newline>'' @
     ''                    margin: 0 0 10px 0;\<newline>'' @ ''                }\<newline>'' @
     ''                .job-description {\<newline>'' @
     ''                    color: #444;\<newline>'' @
     ''                    margin: 0 0 10px 0;\<newline>'' @
     ''                    font-size: 14px;\<newline>'' @ ''                }\<newline>'' @
     ''                .job-link {\<newline>'' @
     ''                    display: inline-block;\<newline>'' @
     ''                    background-color: #2E7D32;\<newline>'' @
     ''                    color: white;\<newline>'' @
     ''                    padding: 8px 15px;\<newline>'' @
     ''                    text-decoration: none;\<newline>'' @
     ''                    border-radius: 4px;\<newline>'' @
     ''                    font-size: 14px;\<newline>'' @
     ''                    font-weight: bold;\<newline>'' @ ''                }\<newline>'' @
     ''                .job-link:hover {\<newline>'' @
     ''                    background-color: #1B5E20;\<newline>'' @
     ''                }\<newline>'' @ ''                .footer {\<newline>'' @
     ''                    text-align: center;\<newline>'' @
     ''                    margin-top: 30px;\<newline>'' @
     ''                    padding-top: 20px;\<newline>'' @
     ''                    border-top: 1px solid #ddd;\<newline>'' @
     ''                    color: #666;\<newline>'' @
     ''                    font-size: 12px;\<newline>'' @ ''                }\<newline>'' @
     ''                @media (max-width: 600px) {\<newline>'' @
     ''                    body {\<newline>'' @
     ''                        padding: 10px;\<newline>'' @ ''                    }\<newline>'' @
     ''                    .container {\<newline>'' @
     ''                        padding: 15px;\<newline>'' @ ''                    }\<newline>'' @
     ''                    .header h1 {\<newline>'' @
     ''                        font-size: 20px;\<newline>'' @ ''                    }\<newline>'' @
     ''                }\<newline>'' @ ''            </style>\<newline>'' @
     ''        </head>\<newline>'' @ ''        <body>\<newline>'' @
     ''            <div class="container">\<newline>'' @
     ''                <div class="header">\<newline>'' @ ''                    <h1>'' @
     [CHR 0xF0, CHR 0x9F, CHR 0x8C, CHR 0xB2] @
     '' Outdoor/Nature Jobs in Tampa Bay</h1>\<newline>'' @
     ''                    <p>Job Search Results - ''\<close>

definition html_head_before_total :: string where
  \<open>html_head_before_total =
     ''</p>\<newline>'' @ ''                </div>\<newline>'' @ ''                \<newline>'' @
     ''                <div class="summary">\<newline>'' @ ''                    <strong>'' @
     [CHR 0xF0, CHR 0x9F, CHR 0x93, CHR 0x8A] @ '' Summary:</strong> Found ''\<close>

definition html_head_after_total :: string where
  \<open>html_head_after_total =
     '' outdoor and nature-related job opportunities in the Tampa Bay area.\<newline>'' @
     ''                </div>\<newline>'' @ ''        ''\<close>

definition html_section_before_source :: string where
  \<open>html_section_before_source =
     ''\<newline>'' @ ''                <div class="source-section">\<newline>'' @
     ''                    <h2 class="source-header">''\<close>

definition html_section_after_count :: string where
  \<open>html_section_after_count =
     '' jobs)</h2>\<newline>'' @ ''            ''\<close>

definition html_job_before_title :: string where
  \<open>html_job_before_title =
     ''\<newline>'' @ ''                    <div class="job">\<newline>'' @
     ''                        <div class="job-title">''\<close>

definition html_job_before_company :: string where
  \<open>html_job_before_company =
     ''</div>\<newline>'' @ ''                        <div class="job-company">''\<close>

definition html_job_before_location :: string where
  \<open>html_job_before_location =
     ''</div>\<newline>'' @ ''                        <div class="job-location">'' @
     [CHR 0xF0, CHR 0x9F, CHR 0x93, CHR 0x8D] @ '' ''\<close>

definition html_job_before_description :: string where
  \<open>html_job_before_description =
     ''</div>\<newline>'' @ ''                        <div class="job-description">''\<close>

definition html_job_before_url :: string where
  \<open>html_job_before_url =
     ''</div>\<newline>'' @ ''                        <a href="''\<close>

definition html_job_after_url :: string where
  \<open>html_job_after_url =
     ''" class="job-link">Apply Now</a>\<newline>'' @ ''                ''\<close>

definition html_posted_before_date :: string where
  \<open>html_posted_before_date =
     ''<div style="font-size: 12px; color: #888; margin-top: 5px;">Posted: ''\<close>

definition html_footer :: string where
  \<open>html_footer =
     ''\<newline>'' @ ''                <div class="footer">\<newline>'' @
     ''                    <p>Generated by Outdoor Job Scraper | Tampa Bay Area</p>\<newline>'' @
     ''                    <p>Good luck with your job search! '' @
     [CHR 0xF0, CHR 0x9F, CHR 0x8C, CHR 0xBF] @ ''</p>\<newline>'' @
     ''                </div>\<newline>'' @ ''            </div>\<newline>'' @
     ''        </body>\<newline>'' @ ''        </html>\<newline>'' @ ''        ''\<close>

text \<open>
  The block of one job; \<^verbatim>\<open>if job.date_posted\<close> is false for \<^verbatim>\<open>None\<close> and for the
  empty string.
\<close>

definition html_job :: "JobListing \<Rightarrow> string" where
  "html_job job =
     html_job_before_title @ title job @ html_job_before_company @ company job
     @ html_job_before_location @ location job @ html_job_before_description
     @ description job @ html_job_before_url @ url job @ html_job_after_url
     @ (case date_posted job of
          None \<Rightarrow> []
        | Some d \<Rightarrow> if d = [] then [] else html_posted_before_date @ d @ ''</div>'')
     @ ''</div>''"

text \<open>The two nested loops, with the text written so far as the accumulator.\<close>

fun html_jobs_loop :: "string \<Rightarrow> JobListing list \<Rightarrow> string" where
  "html_jobs_loop html [] = html"
| "html_jobs_loop html (job # job_list) = html_jobs_loop (html @ html_job job) job_list"

definition html_section_header :: "string \<Rightarrow> nat \<Rightarrow> string" where
  "html_section_header src n =
     html_section_before_source @ src @ '' ('' @ str_nat n @ html_section_after_count"

fun html_sources_loop :: "string \<Rightarrow> (string \<times> JobListing list) list \<Rightarrow> string" where
  "html_sources_loop html [] = html"
| "html_sources_loop html ((src, job_list) # rest) =
     html_sources_loop
       (html_jobs_loop (html @ html_section_header src (length job_list)) job_list @ ''</div>'')
       rest"

definition html_head :: "string \<Rightarrow> nat \<Rightarrow> string" where
  "html_head date total_jobs =
     html_head_before_date @ date @ html_head_before_total @ str_nat total_jobs
     @ html_head_after_total"

definition generate_html_content :: "(string \<times> JobListing list) list \<Rightarrow> string \<Rightarrow> string" where
  "generate_html_content jobs_by_source date =
     (let total_jobs = sum_list (map (\<lambda>(src, job_list). length job_list) jobs_by_source);
          html = html_head date total_jobs;
          html = html_sources_loop html jobs_by_source;
          html = html @ html_footer
      in html)"

text \<open>
  The message built by \<^verbatim>\<open>create_email\<close>; \<open>current_date\<close> is
  \<^verbatim>\<open>datetime.now().strftime('%B %d, %Y')\<close>.
\<close>

record email =
  subject :: string
  sender :: string
  recipient :: string
  html_part :: string

definition create_email :: "string \<Rightarrow> JobListing list \<Rightarrow> string \<Rightarrow> email" where
  "create_email current_date job_list rcpt =
     (let subject' = ''Outdoor/Nature Jobs in Tampa Bay - '' @ current_date;
          jobs_by_source = group_by_source job_list;
          html_content = generate_html_content jobs_by_source current_date
      in \<lparr>subject = subject', sender = rcpt, recipient = rcpt, html_part = html_content\<rparr>)"

section \<open>Reading the backup file\<close>

text \<open>
  Modelled from the spec: the deserializer of the persisted file, which the repository
  does not contain (the program only writes the backup). It is the standard reading of
  a JSON text (\<^verbatim>\<open>json.load\<close>) restricted to the texts the persister can produce, a
  list of objects whose values are strings or \<^verbatim>\<open>null\<close>, followed by the construction
  \<^verbatim>\<open>JobListing(**d)\<close> of a record from each object.

  Whitespace between the tokens is space, tab, line feed and carriage return.
\<close>

definition json_ws :: "char \<Rightarrow> bool" where
  "json_ws c = (c \<in> set [CHR 0x20, CHR 0x09, CHR 0x0A, CHR 0x0D])"

text \<open>Modelled from the spec: the missing deserializer skips whitespace between tokens.\<close>

definition skip_ws :: "string \<Rightarrow> string" where
  "skip_ws s = dropWhile json_ws s"

text \<open>
  Modelled from the spec: the value of a hexadecimal digit, and of the four digits of a
  \<^verbatim>\<open>uXXXX\<close> escape of the missing deserializer.
\<close>

definition hex_value :: "char \<Rightarrow> nat option" where
  "hex_value c = map_of (zip ''0123456789abcdefABCDEF''
                     [0, 1, 2, 3, 4, 5, 6, 7, 8, 9, 10, 11, 12, 13, 14, 15, 10, 11, 12, 13, 14, 15]) c"

text \<open>Modelled from the spec: the code of a four-digit escape in the missing deserializer.\<close>

definition hex4 :: "char \<Rightarrow> char \<Rightarrow> char \<Rightarrow> char \<Rightarrow> nat option" where
  "hex4 a b c d =
     (case (hex_value a, hex_value b, hex_value c, hex_value d) of
        (Some x, Some y, Some z, Some u) \<Rightarrow> Some (((x * 16 + y) * 16 + z) * 16 + u)
      | _ \<Rightarrow> None)"

text \<open>
  Modelled from the spec: the character that a one-letter escape stands for in the
  missing deserializer.
\<close>

definition unescape :: "char \<Rightarrow> char option" where
  "unescape e =
     map_of [(CHR 0x22, CHR 0x22), (CHR 0x5C, CHR 0x5C), (CHR ''/'', CHR ''/''),
             (CHR ''b'', CHR 0x08), (CHR ''f'', CHR 0x0C), (CHR ''n'', CHR 0x0A),
             (CHR ''r'', CHR 0x0D), (CHR ''t'', CHR 0x09)] e"

text \<open>
  Modelled from the spec: the body of a string up to its closing double quote, with what
  follows it. A control character must be escaped; an escape above 255 is outside the
  characters of the model.
\<close>

definition cons_result :: "char \<Rightarrow> (string \<times> string) option \<Rightarrow> (string \<times> string) option" where
  "cons_result c r = map_option (\<lambda>(s, rest). (c # s, rest)) r"

text \<open>Modelled from the spec: the string reader of the missing deserializer.\<close>

fun parse_string_body :: "string \<Rightarrow> (string \<times> string) option" where
  "parse_string_body [] = None"
| "parse_string_body (c # cs) =
     (if c = CHR 0x22 then Some ([], cs)
      else if c = CHR 0x5C then
        (case cs of
           [] \<Rightarrow> None
         | e # cs' \<Rightarrow>
             if e = CHR ''u'' then
               (case cs' of
                  a # b # x # y # cs'' \<Rightarrow>
                    (case hex4 a b x y of
                       None \<Rightarrow> None
                     | Some n \<Rightarrow> if n < 256 then cons_result (char_of n) (parse_string_body cs'')
                                else None)
                | _ \<Rightarrow> None)
             else (case unescape e of
                     None \<Rightarrow> None
                   | Some ch \<Rightarrow> cons_result ch (parse_string_body cs')))
      else if (of_char c :: nat) < 0x20 then None
      else cons_result c (parse_string_body cs))"


text \<open>
  Modelled from the spec: a value read by the missing deserializer is a string or
  \<^verbatim>\<open>null\<close>.
\<close>

fun parse_value :: "string \<Rightarrow> (string option \<times> string) option" where
  "parse_value s =
     (case skip_ws s of
        c # cs \<Rightarrow>
          if c = CHR 0x22 then map_option (\<lambda>(v, rest). (Some v, rest)) (parse_string_body cs)
          else if take 4 (c # cs) = ''null'' then Some (None, drop 4 (c # cs))
          else None
      | [] \<Rightarrow> None)"

text \<open>
  Modelled from the spec: the members of an object and the elements of the list. The
  two loops take fuel, one unit per member or element; \<open>json_loads\<close> gives them the
  length of the text.
\<close>

fun parse_members :: "nat \<Rightarrow> string \<Rightarrow> ((string \<times> string option) list \<times> string) option" where
  "parse_members 0 s = None"
| "parse_members (Suc n) s =
     (case skip_ws s of
        q # s1 \<Rightarrow>
          if q \<noteq> CHR 0x22 then None
          else (case parse_string_body s1 of
                  None \<Rightarrow> None
                | Some (k, s2) \<Rightarrow>
                    (case skip_ws s2 of
                       colon # s3 \<Rightarrow>
                         if colon \<noteq> CHR '':'' then None
                         else (case parse_value s3 of
                                 None \<Rightarrow> None
                               | Some (v, s4) \<Rightarrow>
                                   (case skip_ws s4 of
                                      d # s5 \<Rightarrow>
                                        if d = CHR '','' then
                                          map_option (\<lambda>(m, rest). ((k, v) # m, rest))
                                            (parse_members n s5)
                                        else if d = CHR ''}'' then Some ([(k, v)], s5)
                                        else None
                                    | [] \<Rightarrow> None))
                     | [] \<Rightarrow> None))
      | [] \<Rightarrow> None)"

text \<open>
  Modelled from the spec: an object, \<^verbatim>\<open>{}\<close> or its members between braces, as the
  missing deserializer reads it.
\<close>

definition parse_dict :: "nat \<Rightarrow> string \<Rightarrow> ((string \<times> string option) list \<times> string) option" where
  "parse_dict n s =
     (case skip_ws s of
        c # s1 \<Rightarrow>
          if c \<noteq> CHR ''{'' then None
          else (case skip_ws s1 of
                  d # s2 \<Rightarrow> if d = CHR ''}'' then Some ([], s2) else parse_members n s1
                | [] \<Rightarrow> None)
      | [] \<Rightarrow> None)"

text \<open>
  Modelled from the spec: the elements of the list, as the missing deserializer reads
  them.
\<close>

fun parse_elements ::
  "nat \<Rightarrow> nat \<Rightarrow> string \<Rightarrow> ((string \<times> string option) list list \<times> string) option" where
  "parse_elements fuel 0 s = None"
| "parse_elements fuel (Suc n) s =
     (case parse_dict fuel s of
        None \<Rightarrow> None
      | Some (d, s1) \<Rightarrow>
          (case skip_ws s1 of
             c # s2 \<Rightarrow>
               if c = CHR '','' then
                 map_option (\<lambda>(ds, rest). (d # ds, rest)) (parse_elements fuel n s2)
               else if c = CHR '']'' then Some ([d], s2)
               else None
           | [] \<Rightarrow> None))"

text \<open>
  Modelled from the spec: the list, \<^verbatim>\<open>[]\<close> or its elements between brackets, as the
  missing deserializer reads it.
\<close>

definition parse_list ::
  "nat \<Rightarrow> string \<Rightarrow> ((string \<times> string option) list list \<times> string) option" where
  "parse_list fuel s =
     (case skip_ws s of
        c # s1 \<Rightarrow>
          if c \<noteq> CHR ''['' then None
          else (case skip_ws s1 of
                  d # s2 \<Rightarrow> if d = CHR '']'' then Some ([], s2) else parse_elements fuel fuel s1
                | [] \<Rightarrow> None)
      | [] \<Rightarrow> None)"

text \<open>
  Modelled from the spec: the missing deserializer on a whole text; nothing but
  whitespace may follow the list.
\<close>

definition json_loads :: "string \<Rightarrow> (string \<times> string option) list list option" where
  "json_loads s =
     (case parse_list (length s) s of
        None \<Rightarrow> None
      | Some (ds, rest) \<Rightarrow> if skip_ws rest = [] then Some ds else None)"

text \<open>
  Modelled from the spec: \<^verbatim>\<open>JobListing(**d)\<close>. The first five fields are required; the
  other three have the defaults \<^verbatim>\<open>None\<close>, \<^verbatim>\<open>None\<close> and the empty string. An unknown
  key is refused.
\<close>

definition field_names :: "string list" where
  "field_names = [''title'', ''company'', ''location'', ''description'', ''url'',
                  ''date_posted'', ''experience_level'', ''source'']"

text \<open>
  Modelled from the spec: a required and an optional field of the missing
  deserializer's record construction.
\<close>

definition required :: "(string \<times> string option) list \<Rightarrow> string \<Rightarrow> string option" where
  "required d k = (case map_of d k of Some (Some v) \<Rightarrow> Some v | _ \<Rightarrow> None)"

definition optional :: "(string \<times> string option) list \<Rightarrow> string \<Rightarrow> string option" where
  "optional d k = (case map_of d k of Some v \<Rightarrow> v | None \<Rightarrow> None)"

text \<open>Modelled from the spec: the record construction of the missing deserializer.\<close>

definition from_dict :: "(string \<times> string option) list \<Rightarrow> JobListing option" where
  "from_dict d =
     (if \<not> set (map fst d) \<subseteq> set field_names then None
      else case (required d ''title'', required d ''company'', required d ''location'',
                 required d ''description'', required d ''url'') of
             (Some t, Some c, Some l, Some de, Some u) \<Rightarrow>
               (case map_of d ''source'' of
                  Some None \<Rightarrow> None
                | Some (Some s) \<Rightarrow>
                    Some \<lparr>title = t, company = c, location = l, description = de, url = u,
                          date_posted = optional d ''date_posted'',
                          experience_level = optional d ''experience_level'', source = s\<rparr>
                | None \<Rightarrow>
                    Some \<lparr>title = t, company = c, location = l, description = de, url = u,
                          date_posted = optional d ''date_posted'',
                          experience_level = optional d ''experience_level'', source = []\<rparr>)
           | _ \<Rightarrow> None)"

text \<open>Modelled from the spec: the records of a backup text.\<close>

fun those_jobs :: "JobListing option list \<Rightarrow> JobListing list option" where
  "those_jobs [] = Some []"
| "those_jobs (None # xs) = None"
| "those_jobs (Some j # xs) = map_option ((#) j) (those_jobs xs)"

text \<open>
  Modelled from the spec: the missing deserializer, from the text of the backup file to
  the list of records.
\<close>

definition load_jobs :: "string \<Rightarrow> JobListing list option" where
  "load_jobs text = (case json_loads text of None \<Rightarrow> None | Some ds \<Rightarrow> those_jobs (map from_dict ds))"

section \<open>Auxiliary definitions for the statements\<close>

text \<open>The record, if any, that one round of the Indeed loop appends.\<close>

definition keep_job :: "py_exn + JobListing option \<Rightarrow> JobListing option" where
  "keep_job r = (case r of Inr (Some job) \<Rightarrow> Some job | _ \<Rightarrow> None)"



text \<open>The name of the backup file when \<^verbatim>\<open>save_to_json\<close> gets no file name.\<close>

definition backup_name :: "world \<Rightarrow> string" where
  "backup_name w = ''outdoor_jobs_'' @ now w @ ''.json''"

text \<open>The name of the file that \<^verbatim>\<open>save_to_json\<close> writes.\<close>

definition written_name :: "world \<Rightarrow> string option \<Rightarrow> string" where
  "written_name w filename = (case filename of None \<Rightarrow> backup_name w | Some f \<Rightarrow> f)"

text \<open>The distinct elements of a list in the order of their first occurrence.\<close>

definition first_seen :: "'a list \<Rightarrow> 'a list" where
  "first_seen xs = rev (remdups (rev xs))"

text \<open>The grouping as a specification: every source seen, with its jobs in input order.\<close>

definition grouped :: "JobListing list \<Rightarrow> (string \<times> JobListing list) list" where
  "grouped job_list =
     map (\<lambda>s. (s, filter (\<lambda>job. source job = s) job_list)) (first_seen (map source job_list))"

definition html_section :: "string \<times> JobListing list \<Rightarrow> string" where
  "html_section g =
     html_section_header (fst g) (length (snd g)) @ concat (map html_job (snd g)) @ ''</div>''"

definition total_of :: "(string \<times> JobListing list) list \<Rightarrow> nat" where
  "total_of d = sum_list (map (\<lambda>(src, job_list). length job_list) d)"

text \<open>
  The number of positions of a text at which a marker starts, which is
  \<open>length (filter (prefix m) (suffixes s))\<close>.
\<close>

fun occurrences :: "string \<Rightarrow> string \<Rightarrow> nat" where
  "occurrences m [] = (if m = [] then 1 else 0)"
| "occurrences m (c # s) = (if prefix m (c # s) then 1 else 0) + occurrences m s"

text \<open>
  A record is free of markup when none of the fields that the digest shows contains the
  character \<open><\<close>. The digest writes the fields as they are, without escaping.
\<close>

definition markup_free :: "JobListing \<Rightarrow> bool" where
  \<open>markup_free job =
     (CHR ''<'' \<notin> set (title job) \<and> CHR ''<'' \<notin> set (company job)
      \<and> CHR ''<'' \<notin> set (location job) \<and> CHR ''<'' \<notin> set (description job)
      \<and> CHR ''<'' \<notin> set (url job) \<and> CHR ''<'' \<notin> set (source job)
      \<and> (case date_posted job of None \<Rightarrow> True | Some p \<Rightarrow> CHR ''<'' \<notin> set p))\<close>

subsection \<open>Example inputs\<close>

text \<open>
  The examples use absolute links only, for which \<^verbatim>\<open>urljoin\<close> returns the link.
  In \<open>world_of page\<close> every request is answered with \<open>page\<close> at the first attempt and
  files can be written; in \<open>offline_world\<close> every request fails.
\<close>

definition abs_urljoin :: "string \<Rightarrow> string \<Rightarrow> py_exn + string" where
  "abs_urljoin base href = Inr href"

definition world_of :: "node \<Rightarrow> world" where
  "world_of page = \<lparr>net = (\<lambda>u a. Response page), urljoin = abs_urljoin,
                    now = ''20250101_120000'', can_write = (\<lambda>f. True)\<rparr>"

definition offline_world :: world where
  "offline_world = \<lparr>net = (\<lambda>u a. RequestException), urljoin = abs_urljoin,
                    now = ''20250101_120000'', can_write = (\<lambda>f. True)\<rparr>"

definition document :: "node list \<Rightarrow> node" where
  "document cs = Tag ''[document]'' [] cs"

text \<open>
  \<^verbatim>\<open><div class="job_seen_beacon"><span class="companyName">Acme Parks</span></div>\<close>
\<close>

definition card_without_title :: node where
  "card_without_title =
     Tag ''div'' [(''class'', ''job_seen_beacon'')]
       [Tag ''span'' [(''class'', ''companyName'')] [NavigableString ''Acme Parks'']]"

text \<open>
  \<^verbatim>\<open><div class="job_seen_beacon result"><h2 class="jobTitle"> Park Ranger </h2></div>\<close>
\<close>

definition card_title_only :: node where
  "card_title_only =
     Tag ''div'' [(''class'', ''job_seen_beacon result'')]
       [Tag ''h2'' [(''class'', ''jobTitle'')] [NavigableString '' Park Ranger '']]"


text \<open>
  A page with four links: the first three are career links, the last is not.
\<close>

definition parks_page :: node where
  "parks_page =
     document
       [Tag ''a'' [(''href'', ''https://example.org/jobs/1'')] [NavigableString ''Parking Attendant''],
        Tag ''a'' [(''href'', ''https://example.org/careers/2'')] [NavigableString ''Ranger II''],
        Tag ''a'' [(''href'', ''https://example.org/jobs/3'')] [NavigableString ''Accountant''],
        Tag ''a'' [(''href'', ''https://example.org/about'')] [NavigableString ''Our Parks'']]"

text \<open>
  A record with a double quote, a backslash, a line feed and the control character 1 in
  its title, an empty company, JSON syntax in its description, and both optional
  fields absent.
\<close>

definition awkward_job :: JobListing where
  \<open>awkward_job =
     \<lparr>title = [CHR ''A'', CHR 0x22, CHR ''b'', CHR 0x22, CHR 0x5C, CHR 0x0A, CHR 0x01, CHR ''c''],
      company = [], location = ''Tampa, FL'', description = ''{"x": null}'',
      url = ''https://example.org/jobs/1'', date_posted = None, experience_level = None,
      source = ''Indeed.com''\<rparr>\<close>

text \<open>A record whose title contains the markup that opens a section of the digest.\<close>

definition markup_job :: JobListing where
  \<open>markup_job =
     \<lparr>title = ''x</div></div></div><div class="source-section"><h2 class="source-header">Fake (7 jobs)</h2><div class="job"><div class="job-title">y'',
      company = ''Acme'', location = ''Tampa, FL'', description = ''None'',
      url = ''https://example.org/jobs/1'', date_posted = None, experience_level = None,
      source = ''Indeed.com''\<rparr>\<close>

text \<open>
  Three records free of markup, the first and the third of the same source; the second
  has no posting date and the third an empty one.
\<close>

definition plain_jobs :: "JobListing list" where
  \<open>plain_jobs =
     [\<lparr>title = ''Park Aide'', company = ''City of Tampa'',
        location = ''Tampa, FL'', description = ''Trail upkeep'',
        url = ''https://example.org/jobs/1'', date_posted = Some ''Recent'',
        experience_level = None, source = ''Indeed.com''\<rparr>,
      \<lparr>title = ''Naturalist'', company = ''Pinellas County'',
        location = ''Largo, FL'', description = ''Guided walks'',
        url = ''https://example.org/jobs/2'', date_posted = None,
        experience_level = None, source = ''Pinellas County Parks''\<rparr>,
      \<lparr>title = ''Park Ranger'', company = ''Florida Park Service'',
        location = ''Tampa Bay Area, FL'', description = ''Visitor services'',
        url = ''https://example.org/jobs/3'', date_posted = Some [],
        experience_level = None, source = ''Indeed.com''\<rparr>]\<close>

section \<open>Properties of the fetcher\<close>

lemma make_request_loop_all_fail:
  "(\<forall>a \<in> set as. nw u a = RequestException)
    \<Longrightarrow> fst (make_request_loop nw u m as) = Inr None"
  by (induction as) (auto split: prod.splits)

text \<open>
  C1: for every URL and every positive maximum attempt count, when every attempt fails
  with a request error, \<^verbatim>\<open>make_request\<close> returns \<^verbatim>\<open>None\<close>; it does not raise.
\<close>

theorem make_request_all_fail_returns_None:
  assumes "0 < max_retries"
    and "\<forall>attempt < nat max_retries. nw u attempt = RequestException"
  shows "fst (make_request nw u max_retries) = Inr None"
  unfolding make_request_def range_py_def
  by (rule make_request_loop_all_fail) (use assms in auto)

theorem make_request_all_fail_returns_None_witness:
  "(0::int) < 3
   \<and> fst (make_request (\<lambda>u a. RequestException) ''https://www.tampa.gov/careers'' 3) = Inr None"
  using make_request_all_fail_returns_None
    [of 3 "\<lambda>u a. RequestException" "''https://www.tampa.gov/careers''"]
  by simp

text \<open>
  C2: with a maximum of three attempts that all fail, \<^verbatim>\<open>make_request\<close> returns
  \<^verbatim>\<open>None\<close> and sleeps for backoff exactly twice: \<open>2 ^ 0\<close> seconds after the first
  attempt and \<open>2 ^ 1\<close> seconds after the second, and not after the third.
\<close>

theorem make_request_three_failures:
  assumes "nw u 0 = RequestException"
    and "nw u 1 = RequestException"
    and "nw u 2 = RequestException"
  shows "make_request nw u 3 =
      (Inr None,
       [DelayRequest, HttpGet u, LogWarning 1 3, Backoff (2 ^ 0),
        DelayRequest, HttpGet u, LogWarning 2 3, Backoff (2 ^ 1),
        DelayRequest, HttpGet u, LogWarning 3 3, LogError u 3])
    \<and> backoff_waits (snd (make_request nw u 3)) = [1, 2]
    \<and> length (backoff_waits (snd (make_request nw u 3))) = 2"
proof -
  have r: "range_py 3 = [0, 1, 2]"
    by (simp add: range_py_def upt_conv_Cons)
  have "make_request nw u 3 =
      (Inr None,
       [DelayRequest, HttpGet u, LogWarning 1 3, Backoff (2 ^ 0),
        DelayRequest, HttpGet u, LogWarning 2 3, Backoff (2 ^ 1),
        DelayRequest, HttpGet u, LogWarning 3 3, LogError u 3])"
    using assms by (simp add: make_request_def r)
  then show ?thesis by simp
qed

theorem make_request_three_failures_witness:
  "backoff_waits (snd (make_request (\<lambda>u a. RequestException) ''https://www.tampa.gov/careers'' 3))
     = [1, 2]
   \<and> fst (make_request (\<lambda>u a. RequestException) ''https://www.tampa.gov/careers'' 3) = Inr None"
  using make_request_three_failures
    [of "\<lambda>u a. RequestException" "''https://www.tampa.gov/careers''"]
  by simp

section \<open>Properties of the extractors\<close>

lemma make_request_first_ok:
  assumes "0 < m" and "nw u 0 = Response page"
  shows "fst (make_request nw u m) = Inr (Some page)"
proof -
  from assms(1) have "[0..<nat m] = 0 # [Suc 0..<nat m]"
    by (simp add: upt_conv_Cons)
  with assms(2) show ?thesis
    by (simp add: make_request_def range_py_def)
qed

lemma make_request_offline:
  "fst (make_request (\<lambda>u a. RequestException) u m) = Inr None"
  unfolding make_request_def by (rule make_request_loop_all_fail) simp

text \<open>The lower-case letter, computed on the bits of the character.\<close>

lemma lower_char_bits:
  "lower_char (Char b0 b1 b2 b3 b4 b5 b6 b7) =
     (if \<not> b7 \<and> b6 \<and> \<not> b5 \<and> (b0 \<or> b1 \<or> b2 \<or> b3 \<or> b4)
         \<and> \<not> (b4 \<and> b3 \<and> (b2 \<or> (b1 \<and> b0)))
      then Char b0 b1 b2 b3 b4 True b6 b7 else Char b0 b1 b2 b3 b4 b5 b6 b7)"
  by (cases b7; cases b6; cases b5; cases b4; cases b3; cases b2; cases b1; cases b0;
      simp add: lower_char_def)

lemmas bs4_defs = find_all_def find_tag_def tag_class_def tag_attr_def split_ws_def
  is_space_def get_text_def strip_def or_else_def career_link_def career_re_search_def
  lower_def lower_char_bits any_keyword_def

subsection \<open>The caps on the number of records\<close>

lemma scrape_indeed_loop_length:
  "length (scrape_indeed_loop uj cs acc) \<le> length acc + length cs"
proof (induction cs arbitrary: acc)
  case Nil
  then show ?case by simp
next
  case (Cons c cs)
  show ?case
  proof (cases "indeed_card uj c")
    case (Inl e)
    with Cons.IH [of acc] show ?thesis by simp
  next
    case (Inr r)
    show ?thesis
    proof (cases r)
      case None
      with Inr Cons.IH [of acc] show ?thesis by simp
    next
      case (Some j)
      with Inr Cons.IH [of "acc @ [j]"] show ?thesis by simp
    qed
  qed
qed

lemma scrape_links_loop_length:
  "length (scrape_links_loop uj pu kws mk ls acc) \<le> length acc + length ls"
proof (induction ls arbitrary: acc)
  case Nil
  then show ?case by simp
next
  case (Cons l ls)
  have a: "length (scrape_links_loop uj pu kws mk ls acc) \<le> length acc + length ls"
    by (rule Cons.IH)
  have b: "length (scrape_links_loop uj pu kws mk ls (acc @ [j])) \<le> Suc (length acc + length ls)"
    for j
    using Cons.IH [of "acc @ [j]"] by simp
  show ?case
    using a b by (simp add: Let_def le_SucI split: option.split sum.split)
qed

lemma scrape_links_length: "length (scrape_links w pu kws mk) \<le> 10"
proof -
  have "length (scrape_links_loop (urljoin w) pu kws mk (take 10 ls) []) \<le> 10" for ls
    using scrape_links_loop_length [of "urljoin w" pu kws mk "take 10 ls" "[]"] by simp
  then show ?thesis
    by (simp add: scrape_links_def split: sum.split option.split)
qed

lemma indeed_jobs_length: "length (indeed_jobs uj soup) \<le> 20"
  using scrape_indeed_loop_length [of uj "take 20 (indeed_job_cards soup)" "[]"]
  by (simp add: indeed_jobs_def)

text \<open>
  C10: whatever the document, the Indeed extractor returns at most 20 records and each
  of the five park extractors at most 10, since the loops run over \<^verbatim>\<open>job_cards[:20]\<close>
  and \<^verbatim>\<open>job_links[:10]\<close> and append at most one record per round.
\<close>

theorem extractors_bounded:
  "length (indeed_jobs uj soup) \<le> 20
   \<and> (\<forall>js. scrape_indeed w = Inr js \<longrightarrow> length js \<le> 20)
   \<and> length (scrape_hillsborough_parks w) \<le> 10
   \<and> length (scrape_pinellas_parks w) \<le> 10
   \<and> length (scrape_tampa_parks w) \<le> 10
   \<and> length (scrape_stpete_parks w) \<le> 10
   \<and> length (scrape_fl_state_parks w) \<le> 10"
proof -
  have "length js \<le> 20" if "scrape_indeed w = Inr js" for js
    using that indeed_jobs_length [of "urljoin w"]
    by (auto simp: scrape_indeed_def split: sum.splits option.splits)
  then show ?thesis
    by (simp add: indeed_jobs_length scrape_links_length scrape_hillsborough_parks_def
        scrape_pinellas_parks_def scrape_tampa_parks_def scrape_stpete_parks_def
        scrape_fl_state_parks_def)
qed

lemma title_only_jobs:
  "indeed_jobs abs_urljoin (document [card_title_only]) =
   [\<lparr>title = ''Park Ranger'', company = ''Unknown Company'', location = ''Tampa Bay Area'',
     description = ''No description available'', url = [], date_posted = None,
     experience_level = None, source = ''Indeed.com''\<rparr>]"
  by (simp add: indeed_jobs_def indeed_job_cards_def document_def indeed_card_def
      indeed_title_elem_def card_title_only_def indeed_job_url_def bs4_defs)

theorem extractors_bounded_witness:
  "scrape_indeed (world_of (document [card_title_only])) =
     Inr [\<lparr>title = ''Park Ranger'', company = ''Unknown Company'', location = ''Tampa Bay Area'',
           description = ''No description available'', url = [], date_posted = None,
           experience_level = None, source = ''Indeed.com''\<rparr>]
   \<and> length (indeed_jobs abs_urljoin (document [card_title_only])) \<le> 20"
proof -
  have "scrape_indeed (world_of (document [card_title_only])) =
      Inr (indeed_jobs abs_urljoin (document [card_title_only]))"
    by (simp add: scrape_indeed_def world_of_def make_request_first_ok)
  then show ?thesis
    using extractors_bounded [of abs_urljoin "document [card_title_only]"
        "world_of (document [card_title_only])"]
    by (simp add: title_only_jobs)
qed

subsection \<open>Missing fields of an Indeed card\<close>

lemma scrape_indeed_loop_eq:
  "scrape_indeed_loop uj cs acc = acc @ List.map_filter (\<lambda>c. keep_job (indeed_card uj c)) cs"
  by (induction cs arbitrary: acc)
     (auto simp: List.map_filter_simps keep_job_def split: sum.splits option.splits)

lemma indeed_card_emitted:
  assumes "c \<in> set (take 20 (indeed_job_cards soup))"
    and "indeed_card uj c = Inr (Some job)"
  shows "job \<in> set (indeed_jobs uj soup)"
proof -
  have "keep_job (indeed_card uj c) = Some job"
    using assms(2) by (simp add: keep_job_def)
  with assms(1) show ?thesis
    unfolding indeed_jobs_def scrape_indeed_loop_eq
    by (force simp: List.map_filter_def)
qed

text \<open>
  C7, as the claim states it, fails: a card whose title is absent under both selectors
  is skipped, no placeholder is substituted and no record is emitted.
\<close>

theorem missing_title_skips_record:
  "indeed_job_cards (document [card_without_title]) = [card_without_title]
   \<and> indeed_title_elem card_without_title = None
   \<and> indeed_jobs abs_urljoin (document [card_without_title]) = []"
  by (simp add: indeed_jobs_def indeed_job_cards_def document_def indeed_card_def
      indeed_title_elem_def card_without_title_def bs4_defs)

text \<open>
  C7, amended: for every card among the first 20 whose title element is found under
  the primary or the fallback selector and whose link can be resolved, a record is
  emitted; in it a company, location or description that is absent under both selectors
  is replaced by \<^verbatim>\<open>Unknown Company\<close>, \<^verbatim>\<open>Tampa Bay Area\<close> or
  \<^verbatim>\<open>No description available\<close>, an absent posting date stays \<^verbatim>\<open>None\<close>, and a title
  element without a link gives the empty URL. A card whose title is absent under both
  selectors is skipped: the loop goes on as if the card were not there.
\<close>

theorem indeed_placeholders:
  assumes "c \<in> set (take 20 (indeed_job_cards soup))"
    and "indeed_title_elem c = Some t"
    and "indeed_job_url uj t = Inr u"
  shows "(\<exists>job \<in> set (indeed_jobs uj soup).
      title job = get_text t \<and> url job = u \<and> source job = ''Indeed.com''
    \<and> (find_tag c (tag_class ''span'' ''companyName'') = None
         \<and> find_tag c (tag_class ''div'' ''company_location'') = None
        \<longrightarrow> company job = ''Unknown Company'')
    \<and> (find_tag c (tag_class ''div'' ''companyLocation'') = None
         \<and> find_tag c (tag_class ''span'' ''location'') = None
        \<longrightarrow> location job = ''Tampa Bay Area'')
    \<and> (find_tag c (tag_class ''div'' ''job-snippet'') = None
         \<and> find_tag c (tag_class ''span'' ''summary'') = None
        \<longrightarrow> description job = ''No description available'')
    \<and> (find_tag c (tag_class ''span'' ''date'') = None
         \<and> find_tag c (tag_class ''span'' ''postedDate'') = None
        \<longrightarrow> date_posted job = None)
    \<and> (find_tag t (tag ''a'') = None \<longrightarrow> url job = []))
    \<and> (\<forall>c' cs acc. indeed_title_elem c' = None
           \<longrightarrow> scrape_indeed_loop uj (c' # cs) acc = scrape_indeed_loop uj cs acc)"
proof -
  have skip: "\<forall>c' cs acc. indeed_title_elem c' = None
           \<longrightarrow> scrape_indeed_loop uj (c' # cs) acc = scrape_indeed_loop uj cs acc"
    by (simp add: indeed_card_def)
  obtain job where j: "indeed_card uj c = Inr (Some job)"
    using assms(2,3) by (simp add: indeed_card_def Let_def)
  have m: "job \<in> set (indeed_jobs uj soup)"
    using assms(1) j by (rule indeed_card_emitted)
  have f1: "title job = get_text t" "url job = u" "source job = ''Indeed.com''"
    using j assms(2,3) by (auto simp: indeed_card_def Let_def)
  have f2: "company job = ''Unknown Company''"
    if "find_tag c (tag_class ''span'' ''companyName'') = None"
      "find_tag c (tag_class ''div'' ''company_location'') = None"
    using j assms(2,3) that by (auto simp: indeed_card_def Let_def or_else_def)
  have f3: "location job = ''Tampa Bay Area''"
    if "find_tag c (tag_class ''div'' ''companyLocation'') = None"
      "find_tag c (tag_class ''span'' ''location'') = None"
    using j assms(2,3) that by (auto simp: indeed_card_def Let_def or_else_def)
  have f4: "description job = ''No description available''"
    if "find_tag c (tag_class ''div'' ''job-snippet'') = None"
      "find_tag c (tag_class ''span'' ''summary'') = None"
    using j assms(2,3) that by (auto simp: indeed_card_def Let_def or_else_def)
  have f5: "date_posted job = None"
    if "find_tag c (tag_class ''span'' ''date'') = None"
      "find_tag c (tag_class ''span'' ''postedDate'') = None"
    using j assms(2,3) that by (auto simp: indeed_card_def Let_def or_else_def)
  have f6: "u = []" if "find_tag t (tag ''a'') = None"
    using assms(3) that by (simp add: indeed_job_url_def)
  have emitted: "\<exists>job \<in> set (indeed_jobs uj soup).
      title job = get_text t \<and> url job = u \<and> source job = ''Indeed.com''
    \<and> (find_tag c (tag_class ''span'' ''companyName'') = None
         \<and> find_tag c (tag_class ''div'' ''company_location'') = None
        \<longrightarrow> company job = ''Unknown Company'')
    \<and> (find_tag c (tag_class ''div'' ''companyLocation'') = None
         \<and> find_tag c (tag_class ''span'' ''location'') = None
        \<longrightarrow> location job = ''Tampa Bay Area'')
    \<and> (find_tag c (tag_class ''div'' ''job-snippet'') = None
         \<and> find_tag c (tag_class ''span'' ''summary'') = None
        \<longrightarrow> description job = ''No description available'')
    \<and> (find_tag c (tag_class ''span'' ''date'') = None
         \<and> find_tag c (tag_class ''span'' ''postedDate'') = None
        \<longrightarrow> date_posted job = None)
    \<and> (find_tag t (tag ''a'') = None \<longrightarrow> url job = [])"
    by (rule bexI [OF _ m]) (simp add: f1 f2 f3 f4 f5 f6)
  show ?thesis
    by (rule conjI) (rule emitted, rule skip)
qed

lemma title_only_facts:
  "card_title_only \<in> set (take 20 (indeed_job_cards (document [card_title_only])))"
  "indeed_title_elem card_title_only =
     Some (Tag ''h2'' [(''class'', ''jobTitle'')] [NavigableString '' Park Ranger ''])"
  "indeed_job_url abs_urljoin
     (Tag ''h2'' [(''class'', ''jobTitle'')] [NavigableString '' Park Ranger '']) = Inr []"
  "find_tag card_title_only (tag_class ''span'' ''companyName'') = None"
  "find_tag card_title_only (tag_class ''div'' ''company_location'') = None"
  "find_tag card_title_only (tag_class ''div'' ''companyLocation'') = None"
  "find_tag card_title_only (tag_class ''span'' ''location'') = None"
  "find_tag card_title_only (tag_class ''div'' ''job-snippet'') = None"
  "find_tag card_title_only (tag_class ''span'' ''summary'') = None"
  "find_tag card_title_only (tag_class ''span'' ''date'') = None"
  "find_tag card_title_only (tag_class ''span'' ''postedDate'') = None"
  "find_tag (Tag ''h2'' [(''class'', ''jobTitle'')] [NavigableString '' Park Ranger ''])
     (tag ''a'') = None"
  by (simp_all add: indeed_job_cards_def document_def indeed_title_elem_def
      card_title_only_def indeed_job_url_def bs4_defs)

theorem indeed_placeholders_witness:
  "\<exists>job \<in> set (indeed_jobs abs_urljoin (document [card_title_only])).
      title job = ''Park Ranger'' \<and> url job = [] \<and> source job = ''Indeed.com''
    \<and> company job = ''Unknown Company'' \<and> location job = ''Tampa Bay Area''
    \<and> description job = ''No description available'' \<and> date_posted job = None"
proof -
  have g: "get_text (Tag ''h2'' [(''class'', ''jobTitle'')] [NavigableString '' Park Ranger ''])
      = ''Park Ranger''"
    by (simp add: bs4_defs)
  from indeed_placeholders [OF title_only_facts(1,2,3), THEN conjunct1]
  obtain job where "job \<in> set (indeed_jobs abs_urljoin (document [card_title_only]))"
    and "title job = ''Park Ranger''" "url job = []" "source job = ''Indeed.com''"
    and "company job = ''Unknown Company''" "location job = ''Tampa Bay Area''"
    and "description job = ''No description available''" "date_posted job = None"
    unfolding g using title_only_facts(4-12) by auto
  then show ?thesis by (intro bexI [of _ job]) simp_all
qed

subsection \<open>The keyword filter of the park extractors\<close>













section \<open>Properties of the aggregator\<close>

lemma run_scraping_eq:
  assumes "scrape_indeed w = Inr ji"
    and "can_write w (backup_name w)"
  shows "run_scraping w self files =
     Inr (self\<lparr>jobs := (if jobs self @ ji @ scrape_county_parks w = [] then create_sample_jobs
                          else jobs self @ ji @ scrape_county_parks w)\<rparr>,
          files(backup_name w \<mapsto>
            json_dumps (map asdict
              (if jobs self @ ji @ scrape_county_parks w = [] then create_sample_jobs
               else jobs self @ ji @ scrape_county_parks w))))"
  using assms by (simp add: run_scraping_def save_to_json_def backup_name_def Let_def)

lemma scrape_county_parks_eq:
  "scrape_county_parks w =
     scrape_hillsborough_parks w @ scrape_pinellas_parks w @ scrape_tampa_parks w
     @ scrape_stpete_parks w @ scrape_fl_state_parks w"
  by (simp add: scrape_county_parks_def)

lemma offline_scrapes:
  "scrape_indeed offline_world = Inr []"
  "scrape_county_parks offline_world = []"
  "can_write offline_world (backup_name offline_world)"
  by (simp_all add: scrape_indeed_def scrape_county_parks_eq scrape_hillsborough_parks_def
      scrape_pinellas_parks_def scrape_tampa_parks_def scrape_stpete_parks_def
      scrape_fl_state_parks_def scrape_links_def offline_world_def make_request_offline)

lemma sample_titles:
  "map title create_sample_jobs =
     [''Park Ranger - Entry Level'', ''Environmental Specialist'', ''Recreation Coordinator'',
      ''Wildlife Biologist Assistant'', ''Outdoor Education Instructor'']"
  by (simp add: create_sample_jobs_def)

text \<open>
  C3: when the list aggregated from all sources is empty, \<^verbatim>\<open>run_scraping\<close> returns
  exactly the five records of \<^verbatim>\<open>create_sample_jobs\<close>, in their order (and writes them
  to the backup file).
\<close>

theorem empty_aggregate_gives_samples:
  assumes "scrape_indeed w = Inr ji"
    and "jobs self @ ji @ scrape_county_parks w = []"
    and "can_write w (backup_name w)"
  shows "run_scraping w self files =
      Inr (self\<lparr>jobs := create_sample_jobs\<rparr>,
           files(backup_name w \<mapsto> json_dumps (map asdict create_sample_jobs)))
    \<and> length create_sample_jobs = 5
    \<and> map title create_sample_jobs =
       [''Park Ranger - Entry Level'', ''Environmental Specialist'', ''Recreation Coordinator'',
        ''Wildlife Biologist Assistant'', ''Outdoor Education Instructor'']"
proof -
  have "run_scraping w self files =
      Inr (self\<lparr>jobs := create_sample_jobs\<rparr>,
           files(backup_name w \<mapsto> json_dumps (map asdict create_sample_jobs)))"
    using run_scraping_eq [OF assms(1,3), of self files] assms(2) by simp
  moreover have "length create_sample_jobs = 5"
    by (simp add: create_sample_jobs_def)
  ultimately show ?thesis
    using sample_titles by simp
qed

theorem empty_aggregate_gives_samples_witness:
  "map_sum id (jobs \<circ> fst) (run_scraping offline_world (init_scraper ''me@example.com'') Map.empty)
     = Inr create_sample_jobs"
proof -
  have "jobs (init_scraper ''me@example.com'') @ [] @ scrape_county_parks offline_world = []"
    by (simp add: init_scraper_def offline_scrapes)
  from empty_aggregate_gives_samples [OF offline_scrapes(1) this offline_scrapes(3), of Map.empty]
  show ?thesis by simp
qed

text \<open>
  C4: when the extractors deliver at least one record, the list that \<^verbatim>\<open>run_scraping\<close>
  returns for a new scraper is the concatenation of the per-source lists in the order
  Indeed, Hillsborough, Pinellas, Tampa, St. Petersburg, Florida State Parks, so it
  keeps the order inside each list, and its length is the sum of their lengths.
\<close>

theorem aggregate_is_concatenation:
  assumes "scrape_indeed w = Inr ji"
    and "ji @ scrape_hillsborough_parks w @ scrape_pinellas_parks w @ scrape_tampa_parks w
         @ scrape_stpete_parks w @ scrape_fl_state_parks w \<noteq> []"
    and "can_write w (backup_name w)"
    and "aggregated = ji @ scrape_hillsborough_parks w @ scrape_pinellas_parks w
         @ scrape_tampa_parks w @ scrape_stpete_parks w @ scrape_fl_state_parks w"
  shows "run_scraping w (init_scraper email) files =
       Inr (\<lparr>email_address = email, jobs = aggregated\<rparr>,
            files(backup_name w \<mapsto> json_dumps (map asdict aggregated)))
    \<and> length aggregated =
       length ji + length (scrape_hillsborough_parks w) + length (scrape_pinellas_parks w)
       + length (scrape_tampa_parks w) + length (scrape_stpete_parks w)
       + length (scrape_fl_state_parks w)"
proof -
  let ?all = "jobs (init_scraper email) @ ji @ scrape_county_parks w"
  have ag: "aggregated = ji @ scrape_county_parks w"
    using assms(4) by (simp add: scrape_county_parks_eq)
  have ne: "?all \<noteq> []"
    using assms(2) by (simp add: init_scraper_def scrape_county_parks_eq)
  have r1: "run_scraping w (init_scraper email) files =
     Inr ((init_scraper email)\<lparr>jobs := (if ?all = [] then create_sample_jobs else ?all)\<rparr>,
          files(backup_name w \<mapsto>
            json_dumps (map asdict (if ?all = [] then create_sample_jobs else ?all))))"
    by (rule run_scraping_eq [OF assms(1,3)])
  have r2: "(if ?all = [] then create_sample_jobs else ?all) = aggregated"
    using ne by (auto simp: init_scraper_def ag)
  have r3: "(init_scraper email)\<lparr>jobs := aggregated\<rparr> = \<lparr>email_address = email, jobs = aggregated\<rparr>"
    by (simp add: init_scraper_def)
  have "run_scraping w (init_scraper email) files =
       Inr (\<lparr>email_address = email, jobs = aggregated\<rparr>,
            files(backup_name w \<mapsto> json_dumps (map asdict aggregated)))"
    unfolding r1 r2 r3 by (rule refl)
  then show ?thesis
    by (simp add: assms(4))
qed

lemma parks_page_scrapes:
  "scrape_indeed (world_of parks_page) = Inr []"
  "map title (scrape_hillsborough_parks (world_of parks_page)) = [''Parking Attendant'']"
  "map title (scrape_pinellas_parks (world_of parks_page)) = [''Parking Attendant'']"
  "map title (scrape_tampa_parks (world_of parks_page)) = [''Parking Attendant'']"
  "map title (scrape_stpete_parks (world_of parks_page)) = [''Parking Attendant'']"
  "map title (scrape_fl_state_parks (world_of parks_page)) = [''Parking Attendant'', ''Ranger II'']"
  by (simp_all add: scrape_indeed_def indeed_jobs_def indeed_job_cards_def
      scrape_hillsborough_parks_def scrape_pinellas_parks_def scrape_tampa_parks_def
      scrape_stpete_parks_def scrape_fl_state_parks_def scrape_links_def
      world_of_def abs_urljoin_def make_request_first_ok parks_page_def document_def bs4_defs)

theorem aggregate_is_concatenation_witness:
  "map_sum id (map title \<circ> jobs \<circ> fst)
     (run_scraping (world_of parks_page) (init_scraper ''me@example.com'') Map.empty) =
     Inr [''Parking Attendant'', ''Parking Attendant'', ''Parking Attendant'',
          ''Parking Attendant'', ''Parking Attendant'', ''Ranger II'']"
proof -
  let ?w = "world_of parks_page"
  let ?all = "[] @ scrape_hillsborough_parks ?w @ scrape_pinellas_parks ?w
      @ scrape_tampa_parks ?w @ scrape_stpete_parks ?w @ scrape_fl_state_parks ?w"
  have ne: "?all \<noteq> []"
    using parks_page_scrapes(2) by auto
  have cw: "can_write ?w (backup_name ?w)"
    by (simp add: world_of_def)
  from aggregate_is_concatenation [OF parks_page_scrapes(1) ne cw refl]
  have "run_scraping ?w (init_scraper ''me@example.com'') Map.empty =
      Inr (\<lparr>email_address = ''me@example.com'', jobs = ?all\<rparr>,
           Map.empty(backup_name ?w \<mapsto> json_dumps (map asdict ?all)))"
    by (rule conjunct1)
  then show ?thesis
    by (simp add: parks_page_scrapes)
qed

section \<open>Properties of the digest\<close>

subsection \<open>The grouping loop\<close>

lemma first_seen_snoc:
  "first_seen (xs @ [x]) = (if x \<in> set xs then first_seen xs else first_seen xs @ [x])"
  by (simp add: first_seen_def)

lemma set_first_seen: "set (first_seen xs) = set xs"
  by (simp add: first_seen_def)

lemma distinct_first_seen: "distinct (first_seen xs)"
  by (simp add: first_seen_def)

lemma length_first_seen: "length (first_seen xs) = card (set xs)"
  using distinct_card [OF distinct_first_seen, of xs] by (simp add: set_first_seen)

lemma map_fst_grouped: "map fst (grouped js) = first_seen (map source js)"
  by (simp add: grouped_def comp_def)

lemma group_step_grouped: "group_step (grouped js) job = grouped (js @ [job])"
proof (cases "source job \<in> source ` set js")
  case True
  then show ?thesis
    by (auto simp: group_step_def Let_def map_fst_grouped set_first_seen grouped_def
        first_seen_snoc)
next
  case False
  then have "source j \<noteq> source job" if "j \<in> set js" for j
    using that by (metis imageI)
  then have "filter (\<lambda>j. source j = source job) js = []"
    by (simp add: filter_empty_conv)
  with False show ?thesis
    by (auto simp: group_step_def Let_def map_fst_grouped set_first_seen grouped_def
        first_seen_snoc)
qed

lemma foldl_group_step: "foldl group_step (grouped pre) js = grouped (pre @ js)"
  by (induction js arbitrary: pre) (simp_all add: group_step_grouped)

lemma group_by_source_grouped: "group_by_source js = grouped js"
  using foldl_group_step [of "[]" js]
  by (simp add: group_by_source_def grouped_def first_seen_def)

subsection \<open>The total and the rendering loops\<close>

lemma total_of_simps [simp]:
  "total_of [] = 0"
  "total_of ((k, v) # d) = length v + total_of d"
  "total_of (d @ e) = total_of d + total_of e"
  by (simp_all add: total_of_def)

lemma update_absent:
  "k \<notin> fst ` set d \<Longrightarrow> map (\<lambda>(k', v). if k' = k then (k', v @ [x]) else (k', v)) d = d"
  by (induction d) auto

lemma total_update_present:
  "distinct (map fst d) \<Longrightarrow> k \<in> fst ` set d
    \<Longrightarrow> total_of (map (\<lambda>(k', v). if k' = k then (k', v @ [x]) else (k', v)) d)
        = Suc (total_of d)"
proof (induction d)
  case Nil
  then show ?case by simp
next
  case (Cons a d)
  obtain k' v where a: "a = (k', v)" by (cases a)
  show ?case
  proof (cases "k' = k")
    case True
    with Cons.prems a have "k \<notin> fst ` set d" by auto
    then show ?thesis
      using a True by (simp add: update_absent)
  next
    case False
    with Cons a show ?thesis by auto
  qed
qed

lemma total_group_step:
  assumes "distinct (map fst d)"
  shows "total_of (group_step d job) = Suc (total_of d)"
proof (cases "source job \<in> fst ` set d")
  case True
  with assms show ?thesis
    by (simp add: group_step_def Let_def total_update_present)
next
  case False
  then have "map (\<lambda>(k', v). if k' = source job then (k', v @ [job]) else (k', v)) d = d"
    by (rule update_absent)
  with False show ?thesis
    by (simp add: group_step_def Let_def)
qed

lemma total_grouped: "total_of (grouped js) = length js"
proof (induction js rule: rev_induct)
  case Nil
  then show ?case by (simp add: grouped_def first_seen_def)
next
  case (snoc job js)
  have "distinct (map fst (grouped js))"
    by (simp add: map_fst_grouped distinct_first_seen)
  then show ?case
    using snoc by (simp add: group_step_grouped [symmetric] total_group_step)
qed

lemma html_jobs_loop_eq: "html_jobs_loop html js = html @ concat (map html_job js)"
  by (induction js arbitrary: html) simp_all

lemma html_sources_loop_eq:
  "html_sources_loop html gs = html @ concat (map html_section gs)"
  by (induction html gs rule: html_sources_loop.induct)
     (simp_all add: html_jobs_loop_eq html_section_def)

lemma create_email_html:
  "html_part (create_email d js r) =
     html_head d (length js) @ concat (map html_section (grouped js)) @ html_footer"
  using total_grouped [of js]
  by (simp add: create_email_def generate_html_content_def Let_def group_by_source_grouped
      html_sources_loop_eq total_of_def)

subsection \<open>Decimal numerals\<close>

lemma below_ten: "k < 10 \<Longrightarrow> k \<in> set [0, 1, 2, 3, 4, 5, 6, 7, 8, 9 :: nat]"
  by (simp add: less_Suc_eq numeral_eq_Suc)

lemma digit_value_all:
  "\<forall>k \<in> set [0, 1, 2, 3, 4, 5, 6, 7, 8, 9]. (of_char (digit_char k) :: nat) - 48 = k"
  by (simp add: digit_char_def)

lemma digit_value: "k < 10 \<Longrightarrow> (of_char (digit_char k) :: nat) - 48 = k"
  by (rule bspec [OF digit_value_all below_ten])

lemma digit_char_set_all:
  "\<forall>k \<in> set [0, 1, 2, 3, 4, 5, 6, 7, 8, 9]. digit_char k \<in> set ''0123456789''"
  by (simp add: digit_char_def)

lemma digit_char_set: "k < 10 \<Longrightarrow> digit_char k \<in> set ''0123456789''"
  by (rule bspec [OF digit_char_set_all below_ten])

lemma digit_char_zero_all:
  "\<forall>k \<in> set [0, 1, 2, 3, 4, 5, 6, 7, 8, 9]. (digit_char k = CHR ''0'') = (k = 0)"
  by (simp add: digit_char_def)

lemma digit_char_zero: "k < 10 \<Longrightarrow> (digit_char k = CHR ''0'') = (k = 0)"
  by (rule bspec [OF digit_char_zero_all below_ten])

lemma str_nat_nonempty: "str_nat n \<noteq> []"
  by (subst str_nat.simps) (simp del: str_nat.simps)

lemma str_nat_value: "foldl (\<lambda>a c. 10 * a + (of_char c - 48)) 0 (str_nat n) = n"
proof (induction n rule: str_nat.induct)
  case (1 n)
  show ?case
  proof (cases "n < 10")
    case True
    then show ?thesis
      by (subst str_nat.simps) (simp add: digit_value del: str_nat.simps)
  next
    case False
    then have "foldl (\<lambda>a c. 10 * a + (of_char c - 48)) 0 (str_nat (n div 10)) = n div 10"
      using 1 by (simp del: str_nat.simps)
    then show ?thesis
      using False by (subst str_nat.simps) (simp add: digit_value del: str_nat.simps)
  qed
qed

lemma str_nat_digits: "set (str_nat n) \<subseteq> set ''0123456789''"
proof (induction n rule: str_nat.induct)
  case (1 n)
  show ?case
  proof (cases "n < 10")
    case True
    then show ?thesis
      using digit_char_set [of n] by (subst str_nat.simps) (simp del: str_nat.simps)
  next
    case False
    then have "set (str_nat (n div 10)) \<subseteq> set ''0123456789''"
      using 1 by (simp del: str_nat.simps)
    then show ?thesis
      using False digit_char_set [of "n mod 10"] by (subst str_nat.simps) (simp del: str_nat.simps)
  qed
qed

lemma str_nat_leading: "(hd (str_nat n) = CHR ''0'') = (n = 0)"
proof (induction n rule: str_nat.induct)
  case (1 n)
  show ?case
  proof (cases "n < 10")
    case True
    then show ?thesis
      by (subst str_nat.simps) (simp add: digit_char_zero del: str_nat.simps)
  next
    case False
    then have "(hd (str_nat (n div 10)) = CHR ''0'') = (n div 10 = 0)"
      using 1 by (simp del: str_nat.simps)
    moreover have "n div 10 \<noteq> 0"
      using False by simp
    ultimately show ?thesis
      using False str_nat_nonempty [of "n div 10"] by (subst str_nat.simps) (simp del: str_nat.simps)
  qed
qed

lemma str_nat_small: "str_nat 0 = ''0''" "str_nat 1 = ''1''" "str_nat 2 = ''2''"
  "str_nat 3 = ''3''" "str_nat 5 = ''5''"
  by (subst str_nat.simps, simp add: digit_char_def del: str_nat.simps)+

lemma str_nat_decimal:
  \<open>str_nat 0 = ''0''
   \<and> (\<forall>n. foldl (\<lambda>a c. 10 * a + (of_char c - 48)) 0 (str_nat n) = n
          \<and> set (str_nat n) \<subseteq> set ''0123456789''
          \<and> (hd (str_nat n) = CHR ''0'') = (n = 0))\<close>
  using str_nat_value str_nat_digits str_nat_leading str_nat_small(1) by (intro allI conjI)

lemma str_nat_plain: "CHR ''<'' \<notin> set (str_nat n)"
proof -
  have "CHR ''<'' \<notin> set ''0123456789''"
    by simp
  then show ?thesis
    using str_nat_digits [of n] by (rule contra_subsetD [rotated])
qed

subsection \<open>The text of the digest\<close>

lemmas html_consts = html_head_before_total_def html_head_after_total_def
  html_section_before_source_def html_section_after_count_def html_job_before_title_def
  html_job_before_company_def html_job_before_location_def html_job_before_description_def
  html_job_before_url_def html_job_after_url_def html_posted_before_date_def html_footer_def

lemma html_job_text:
  \<open>html_job job =
          ''\<newline>'' @ ''                    <div class="job">\<newline>'' @
          ''                        <div class="job-title">''
          @ title job @ ''</div>\<newline>'' @ ''                        <div class="job-company">''
          @ company job @ ''</div>\<newline>'' @ ''                        <div class="job-location">'' @
          [CHR 0xF0, CHR 0x9F, CHR 0x93, CHR 0x8D] @ '' ''
          @ location job @ ''</div>\<newline>'' @ ''                        <div class="job-description">''
          @ description job @ ''</div>\<newline>'' @ ''                        <a href="''
          @ url job @ ''" class="job-link">Apply Now</a>\<newline>'' @ ''                ''
          @ (case date_posted job of
               None \<Rightarrow> []
             | Some p \<Rightarrow> if p = [] then []
                        else ''<div style="font-size: 12px; color: #888; margin-top: 5px;">Posted: '' @ p @ ''</div>'')
          @ ''</div>''\<close>
  by (simp add: html_job_def html_consts split: option.split)

lemma html_job_fun:
  \<open>html_job = (\<lambda>job.
          ''\<newline>'' @ ''                    <div class="job">\<newline>'' @
          ''                        <div class="job-title">''
          @ title job @ ''</div>\<newline>'' @ ''                        <div class="job-company">''
          @ company job @ ''</div>\<newline>'' @ ''                        <div class="job-location">'' @
          [CHR 0xF0, CHR 0x9F, CHR 0x93, CHR 0x8D] @ '' ''
          @ location job @ ''</div>\<newline>'' @ ''                        <div class="job-description">''
          @ description job @ ''</div>\<newline>'' @ ''                        <a href="''
          @ url job @ ''" class="job-link">Apply Now</a>\<newline>'' @ ''                ''
          @ (case date_posted job of
               None \<Rightarrow> []
             | Some p \<Rightarrow> if p = [] then []
                        else ''<div style="font-size: 12px; color: #888; margin-top: 5px;">Posted: '' @ p @ ''</div>'')
          @ ''</div>'')\<close>
  by (rule ext) (rule html_job_text)

lemma html_head_text:
  \<open>html_head d n =
     html_head_before_date @ d @ ''</p>\<newline>'' @ ''                </div>\<newline>'' @ ''                \<newline>'' @
          ''                <div class="summary">\<newline>'' @ ''                    <strong>'' @
          [CHR 0xF0, CHR 0x9F, CHR 0x93, CHR 0x8A] @ '' Summary:</strong> Found ''
     @ str_nat n @ '' outdoor and nature-related job opportunities in the Tampa Bay area.\<newline>'' @
          ''                </div>\<newline>'' @ ''        ''\<close>
  by (simp add: html_head_def html_consts del: str_nat.simps)

lemma html_footer_text:
  \<open>html_footer =
     ''\<newline>'' @ ''                <div class="footer">\<newline>'' @
          ''                    <p>Generated by Outdoor Job Scraper | Tampa Bay Area</p>\<newline>'' @
          ''                    <p>Good luck with your job search! '' @
          [CHR 0xF0, CHR 0x9F, CHR 0x8C, CHR 0xBF] @ ''</p>\<newline>'' @
          ''                </div>\<newline>'' @ ''            </div>\<newline>'' @
          ''        </body>\<newline>'' @ ''        </html>\<newline>'' @ ''        ''\<close>
  by (simp add: html_footer_def)

lemma html_sections_text:
  \<open>map html_section (grouped js) =
     map (\<lambda>(s, sjobs).
          ''\<newline>'' @ ''                <div class="source-section">\<newline>'' @
          ''                    <h2 class="source-header">''
          @ s @ '' ('' @ str_nat (length (filter (\<lambda>job. source job = s) js)) @ '' jobs)</h2>\<newline>'' @ ''            ''
          @ concat (map (\<lambda>job.
              ''\<newline>'' @ ''                    <div class="job">\<newline>'' @
          ''                        <div class="job-title">''
              @ title job @ ''</div>\<newline>'' @ ''                        <div class="job-company">''
              @ company job @ ''</div>\<newline>'' @ ''                        <div class="job-location">'' @
          [CHR 0xF0, CHR 0x9F, CHR 0x93, CHR 0x8D] @ '' ''
              @ location job @ ''</div>\<newline>'' @ ''                        <div class="job-description">''
              @ description job @ ''</div>\<newline>'' @ ''                        <a href="''
              @ url job @ ''" class="job-link">Apply Now</a>\<newline>'' @ ''                ''
              @ (case date_posted job of
                   None \<Rightarrow> []
                 | Some p \<Rightarrow> if p = [] then []
                            else ''<div style="font-size: 12px; color: #888; margin-top: 5px;">Posted: '' @ p @ ''</div>'')
              @ ''</div>'') sjobs)
          @ ''</div>'') (grouped js)\<close>
  by (simp add: grouped_def html_section_def html_section_header_def html_consts html_job_fun
      del: str_nat.simps)

lemma digest_text:
  \<open>html_part (create_email d js r) =
       html_head_before_date @ d @ ''</p>\<newline>'' @ ''                </div>\<newline>'' @ ''                \<newline>'' @
          ''                <div class="summary">\<newline>'' @ ''                    <strong>'' @
          [CHR 0xF0, CHR 0x9F, CHR 0x93, CHR 0x8A] @ '' Summary:</strong> Found ''
       @ str_nat (length js) @ '' outdoor and nature-related job opportunities in the Tampa Bay area.\<newline>'' @
          ''                </div>\<newline>'' @ ''        ''
       @ concat (map (\<lambda>(s, sjobs).
          ''\<newline>'' @ ''                <div class="source-section">\<newline>'' @
          ''                    <h2 class="source-header">''
          @ s @ '' ('' @ str_nat (length (filter (\<lambda>job. source job = s) js)) @ '' jobs)</h2>\<newline>'' @ ''            ''
          @ concat (map (\<lambda>job.
              ''\<newline>'' @ ''                    <div class="job">\<newline>'' @
          ''                        <div class="job-title">''
              @ title job @ ''</div>\<newline>'' @ ''                        <div class="job-company">''
              @ company job @ ''</div>\<newline>'' @ ''                        <div class="job-location">'' @
          [CHR 0xF0, CHR 0x9F, CHR 0x93, CHR 0x8D] @ '' ''
              @ location job @ ''</div>\<newline>'' @ ''                        <div class="job-description">''
              @ description job @ ''</div>\<newline>'' @ ''                        <a href="''
              @ url job @ ''" class="job-link">Apply Now</a>\<newline>'' @ ''                ''
              @ (case date_posted job of
                   None \<Rightarrow> []
                 | Some p \<Rightarrow> if p = [] then []
                            else ''<div style="font-size: 12px; color: #888; margin-top: 5px;">Posted: '' @ p @ ''</div>'')
              @ ''</div>'') sjobs)
          @ ''</div>'')
         (group_by_source js))
       @ ''\<newline>'' @ ''                <div class="footer">\<newline>'' @
          ''                    <p>Generated by Outdoor Job Scraper | Tampa Bay Area</p>\<newline>'' @
          ''                    <p>Good luck with your job search! '' @
          [CHR 0xF0, CHR 0x9F, CHR 0x8C, CHR 0xBF] @ ''</p>\<newline>'' @
          ''                </div>\<newline>'' @ ''            </div>\<newline>'' @
          ''        </body>\<newline>'' @ ''        </html>\<newline>'' @ ''        ''\<close>
  by (simp only: create_email_html html_head_text html_footer_text html_sections_text
      group_by_source_grouped append_assoc)

subsection \<open>The section openers in a text\<close>

lemma occurrences_suffixes: "occurrences m s = length (filter (prefix m) (suffixes s))"
  by (induction s) auto

lemma occurrences_append:
  "m \<noteq> [] \<Longrightarrow> occurrences m a + occurrences m b \<le> occurrences m (a @ b)"
proof (induction a)
  case Nil
  then show ?case by simp
next
  case (Cons c a)
  have "prefix m (c # a) \<Longrightarrow> prefix m (c # a @ b)"
    by (metis append_Cons prefix_prefix)
  with Cons show ?case by auto
qed

lemma occurrences_self: "m \<noteq> [] \<Longrightarrow> Suc (occurrences m b) \<le> occurrences m (m @ b)"
proof (cases m)
  case Nil
  then show "m \<noteq> [] \<Longrightarrow> ?thesis" by simp
next
  case (Cons c m')
  have "occurrences m b \<le> occurrences m (m' @ b)"
    using occurrences_append [of m m' b] Cons by simp
  then show ?thesis
    using Cons by simp
qed

lemma occurrences_twice:
  assumes "m \<noteq> []"
  shows "2 \<le> occurrences m (a @ m @ b @ m @ c)"
proof -
  have "Suc 0 \<le> occurrences m (m @ c)"
    using occurrences_self [OF assms, of c] by simp
  also have "\<dots> \<le> occurrences m (b @ m @ c)"
    using occurrences_append [OF assms, of b "m @ c"] by simp
  finally have "2 \<le> Suc (occurrences m (b @ m @ c))"
    by simp
  also have "\<dots> \<le> occurrences m (m @ b @ m @ c)"
    by (rule occurrences_self [OF assms])
  also have "\<dots> \<le> occurrences m (a @ m @ b @ m @ c)"
    using occurrences_append [OF assms, of a "m @ b @ m @ c"] by simp
  finally show ?thesis .
qed

lemma occurrences_concat:
  assumes "m \<noteq> []" and "\<forall>x \<in> set xs. 1 \<le> occurrences m (f x)"
  shows "length xs \<le> occurrences m (concat (map f xs))"
  using assms(2)
proof (induction xs)
  case Nil
  then show ?case by simp
next
  case (Cons x xs)
  have "1 + length xs \<le> occurrences m (f x) + occurrences m (concat (map f xs))"
    using Cons by (simp add: add_mono)
  also have "\<dots> \<le> occurrences m (f x @ concat (map f xs))"
    by (rule occurrences_append [OF assms(1)])
  finally show ?case by simp
qed

lemma occurrences_between:
  assumes "m \<noteq> []"
  shows "occurrences m b \<le> occurrences m (a @ b @ c)"
proof -
  have "occurrences m b \<le> occurrences m (b @ c)"
    using occurrences_append [OF assms, of b c] by simp
  also have "\<dots> \<le> occurrences m (a @ b @ c)"
    using occurrences_append [OF assms, of a "b @ c"] by simp
  finally show ?thesis .
qed

lemma html_section_opener:
  \<open>html_section x =
     (''\<newline>'' @ ''                '') @ ''<div class="source-section">'' @
     (''\<newline>'' @ ''                    <h2 class="source-header">'' @ fst x @ '' (''
      @ str_nat (length (snd x)) @ html_section_after_count
      @ concat (map html_job (snd x)) @ ''</div>'')\<close>
  by (simp add: html_section_def html_section_header_def html_section_before_source_def
      del: str_nat.simps)

lemma html_section_occurrence: \<open>1 \<le> occurrences ''<div class="source-section">'' (html_section x)\<close>
proof -
  let ?m = \<open>''<div class="source-section">''\<close>
  let ?pre = \<open>''\<newline>'' @ ''                ''\<close>
  let ?rest = \<open>''\<newline>'' @ ''                    <h2 class="source-header">'' @ fst x @ '' (''
      @ str_nat (length (snd x)) @ html_section_after_count
      @ concat (map html_job (snd x)) @ ''</div>''\<close>
  have ne: "?m \<noteq> []"
    by simp
  have s1: "occurrences ?m ?pre + occurrences ?m (?m @ ?rest) \<le> occurrences ?m (?pre @ ?m @ ?rest)"
    by (rule occurrences_append [OF ne])
  have s2: "Suc (occurrences ?m ?rest) \<le> occurrences ?m (?m @ ?rest)"
    by (rule occurrences_self [OF ne])
  have s3: "1 \<le> occurrences ?m (?pre @ ?m @ ?rest)"
    using s1 s2 by linarith
  show ?thesis
    unfolding html_section_opener [of x] by (rule s3)
qed

text \<open>Whatever the fields contain, the digest has an opener for every source.\<close>

lemma digest_occurrences:
  \<open>card (source ` set js) \<le> occurrences ''<div class="source-section">'' (html_part (create_email d js r))\<close>
proof -
  have ne: \<open>''<div class="source-section">'' \<noteq> []\<close>
    by simp
  let ?secs = "concat (map html_section (grouped js))"
  have "card (source ` set js) = length (grouped js)"
    using length_first_seen [of "map source js"] by (simp add: grouped_def)
  also have \<open>\<dots> \<le> occurrences ''<div class="source-section">'' ?secs\<close>
    by (rule occurrences_concat [OF ne]) (rule ballI, rule html_section_occurrence)
  also have \<open>\<dots> \<le> occurrences ''<div class="source-section">'' (html_head d (length js) @ ?secs @ html_footer)\<close>
    by (rule occurrences_between [OF ne])
  finally show ?thesis
    by (simp only: create_email_html)
qed

text \<open>
  The openers of a text are counted from left to right; the rest of the text is not
  looked at before its turn.
\<close>

lemma occurrences_weak_cong: "m = m' \<Longrightarrow> occurrences m s = occurrences m' s"
  by simp

lemma prefix_weak_cong: "m = m' \<Longrightarrow> prefix m s = prefix m' s"
  by simp

lemma prefix_step: "prefix (x # xs) (y # ys) = (if x = y then prefix xs ys else False)"
  by simp

lemma occurrences_step:
  "occurrences (x # xs) (y # ys) =
     (if x = y then (if prefix xs ys then 1 else 0) else 0) + occurrences (x # xs) ys"
  by simp

text \<open>No fixed part of the template but the one that opens a section contains an opener.\<close>

lemma opener_head_before_date:
  \<open>occurrences ''<div class="source-section">'' (html_head_before_date @ s) = occurrences ''<div class="source-section">'' s\<close>
  apply (simp only: html_head_before_date_def append.simps append_assoc)
  apply (simp only: occurrences_step occurrences.simps(1) prefix_step prefix_Nil Nil_prefix
      char.inject simp_thms if_True if_False list.simps add_0 add_0_right
      cong: occurrences_weak_cong prefix_weak_cong if_weak_cong)
  done

lemma opener_head_before_total:
  \<open>occurrences ''<div class="source-section">'' (html_head_before_total @ s) = occurrences ''<div class="source-section">'' s\<close>
  apply (simp only: html_head_before_total_def append.simps append_assoc)
  apply (simp only: occurrences_step occurrences.simps(1) prefix_step prefix_Nil Nil_prefix
      char.inject simp_thms if_True if_False list.simps add_0 add_0_right
      cong: occurrences_weak_cong prefix_weak_cong if_weak_cong)
  done

lemma opener_head_after_total:
  \<open>occurrences ''<div class="source-section">'' (html_head_after_total @ s) = occurrences ''<div class="source-section">'' s\<close>
  apply (simp only: html_head_after_total_def append.simps append_assoc)
  apply (simp only: occurrences_step occurrences.simps(1) prefix_step prefix_Nil Nil_prefix
      char.inject simp_thms if_True if_False list.simps add_0 add_0_right
      cong: occurrences_weak_cong prefix_weak_cong if_weak_cong)
  done

lemma opener_section_before_source:
  \<open>occurrences ''<div class="source-section">'' (html_section_before_source @ s) = Suc (occurrences ''<div class="source-section">'' s)\<close>
  apply (simp only: html_section_before_source_def append.simps append_assoc)
  apply (simp only: occurrences_step occurrences.simps(1) prefix_step prefix_Nil Nil_prefix
      char.inject simp_thms if_True if_False list.simps add_0 add_0_right
      cong: occurrences_weak_cong prefix_weak_cong if_weak_cong)
  done

lemma opener_paren:
  \<open>occurrences ''<div class="source-section">'' ('' ('' @ s) = occurrences ''<div class="source-section">'' s\<close>
  apply (simp only:  append.simps append_assoc)
  apply (simp only: occurrences_step occurrences.simps(1) prefix_step prefix_Nil Nil_prefix
      char.inject simp_thms if_True if_False list.simps add_0 add_0_right
      cong: occurrences_weak_cong prefix_weak_cong if_weak_cong)
  done

lemma opener_section_after_count:
  \<open>occurrences ''<div class="source-section">'' (html_section_after_count @ s) = occurrences ''<div class="source-section">'' s\<close>
  apply (simp only: html_section_after_count_def append.simps append_assoc)
  apply (simp only: occurrences_step occurrences.simps(1) prefix_step prefix_Nil Nil_prefix
      char.inject simp_thms if_True if_False list.simps add_0 add_0_right
      cong: occurrences_weak_cong prefix_weak_cong if_weak_cong)
  done

lemma opener_job_before_title:
  \<open>occurrences ''<div class="source-section">'' (html_job_before_title @ s) = occurrences ''<div class="source-section">'' s\<close>
  apply (simp only: html_job_before_title_def append.simps append_assoc)
  apply (simp only: occurrences_step occurrences.simps(1) prefix_step prefix_Nil Nil_prefix
      char.inject simp_thms if_True if_False list.simps add_0 add_0_right
      cong: occurrences_weak_cong prefix_weak_cong if_weak_cong)
  done

lemma opener_job_before_company:
  \<open>occurrences ''<div class="source-section">'' (html_job_before_company @ s) = occurrences ''<div class="source-section">'' s\<close>
  apply (simp only: html_job_before_company_def append.simps append_assoc)
  apply (simp only: occurrences_step occurrences.simps(1) prefix_step prefix_Nil Nil_prefix
      char.inject simp_thms if_True if_False list.simps add_0 add_0_right
      cong: occurrences_weak_cong prefix_weak_cong if_weak_cong)
  done

lemma opener_job_before_location:
  \<open>occurrences ''<div class="source-section">'' (html_job_before_location @ s) = occurrences ''<div class="source-section">'' s\<close>
  apply (simp only: html_job_before_location_def append.simps append_assoc)
  apply (simp only: occurrences_step occurrences.simps(1) prefix_step prefix_Nil Nil_prefix
      char.inject simp_thms if_True if_False list.simps add_0 add_0_right
      cong: occurrences_weak_cong prefix_weak_cong if_weak_cong)
  done

lemma opener_job_before_description:
  \<open>occurrences ''<div class="source-section">'' (html_job_before_description @ s) = occurrences ''<div class="source-section">'' s\<close>
  apply (simp only: html_job_before_description_def append.simps append_assoc)
  apply (simp only: occurrences_step occurrences.simps(1) prefix_step prefix_Nil Nil_prefix
      char.inject simp_thms if_True if_False list.simps add_0 add_0_right
      cong: occurrences_weak_cong prefix_weak_cong if_weak_cong)
  done

lemma opener_job_before_url:
  \<open>occurrences ''<div class="source-section">'' (html_job_before_url @ s) = occurrences ''<div class="source-section">'' s\<close>
  apply (simp only: html_job_before_url_def append.simps append_assoc)
  apply (simp only: occurrences_step occurrences.simps(1) prefix_step prefix_Nil Nil_prefix
      char.inject simp_thms if_True if_False list.simps add_0 add_0_right
      cong: occurrences_weak_cong prefix_weak_cong if_weak_cong)
  done

lemma opener_job_after_url:
  \<open>occurrences ''<div class="source-section">'' (html_job_after_url @ s) = occurrences ''<div class="source-section">'' s\<close>
  apply (simp only: html_job_after_url_def append.simps append_assoc)
  apply (simp only: occurrences_step occurrences.simps(1) prefix_step prefix_Nil Nil_prefix
      char.inject simp_thms if_True if_False list.simps add_0 add_0_right
      cong: occurrences_weak_cong prefix_weak_cong if_weak_cong)
  done

lemma opener_posted_before_date:
  \<open>occurrences ''<div class="source-section">'' (html_posted_before_date @ s) = occurrences ''<div class="source-section">'' s\<close>
  apply (simp only: html_posted_before_date_def append.simps append_assoc)
  apply (simp only: occurrences_step occurrences.simps(1) prefix_step prefix_Nil Nil_prefix
      char.inject simp_thms if_True if_False list.simps add_0 add_0_right
      cong: occurrences_weak_cong prefix_weak_cong if_weak_cong)
  done

lemma opener_div_close:
  \<open>occurrences ''<div class="source-section">'' (''</div>'' @ s) = occurrences ''<div class="source-section">'' s\<close>
  apply (simp only:  append.simps append_assoc)
  apply (simp only: occurrences_step occurrences.simps(1) prefix_step prefix_Nil Nil_prefix
      char.inject simp_thms if_True if_False list.simps add_0 add_0_right
      cong: occurrences_weak_cong prefix_weak_cong if_weak_cong)
  done

lemma opener_footer: \<open>occurrences ''<div class="source-section">'' html_footer = 0\<close>
  apply (simp only: html_footer_def append.simps append_assoc)
  apply (simp only: occurrences_step occurrences.simps(1) prefix_step prefix_Nil Nil_prefix
      char.inject simp_thms if_True if_False list.simps add_0 add_0_right
      cong: occurrences_weak_cong prefix_weak_cong if_weak_cong)
  done

lemmas opener_parts = opener_head_before_date opener_head_before_total opener_head_after_total opener_section_before_source opener_paren opener_section_after_count opener_job_before_title opener_job_before_company opener_job_before_location opener_job_before_description opener_job_before_url opener_job_after_url opener_posted_before_date opener_div_close

lemma occurrences_plain:
  "CHR ''<'' \<notin> set f \<Longrightarrow> occurrences (CHR ''<'' # m) (f @ s) = occurrences (CHR ''<'' # m) s"
  by (induction f) auto

lemma opener_job:
  assumes "markup_free job"
  shows \<open>occurrences ''<div class="source-section">'' (html_job job @ s) = occurrences ''<div class="source-section">'' s\<close>
proof -
  have f: "CHR ''<'' \<notin> set (title job)" "CHR ''<'' \<notin> set (company job)"
    "CHR ''<'' \<notin> set (location job)" "CHR ''<'' \<notin> set (description job)"
    "CHR ''<'' \<notin> set (url job)"
    using assms by (simp_all add: markup_free_def)
  have posted: \<open>occurrences ''<div class="source-section">''
      ((case date_posted job of None \<Rightarrow> []
        | Some p \<Rightarrow> if p = [] then [] else html_posted_before_date @ p @ ''</div>'') @ t)
      = occurrences ''<div class="source-section">'' t\<close> for t
  proof (cases "date_posted job")
    case None
    then show ?thesis
      by (simp only: option.case append.simps)
  next
    case (Some p)
    then have p: "CHR ''<'' \<notin> set p"
      using assms by (simp add: markup_free_def)
    show ?thesis
    proof (cases "p = []")
      case True
      with Some show ?thesis
        by (simp only: option.case simp_thms if_True append.simps)
    next
      case False
      with Some show ?thesis
        by (simp only: option.case simp_thms if_False append_assoc opener_parts
            occurrences_plain [OF p])
    qed
  qed
  show ?thesis
    by (simp only: html_job_def append_assoc opener_parts posted
        occurrences_plain [OF f(1)] occurrences_plain [OF f(2)] occurrences_plain [OF f(3)]
        occurrences_plain [OF f(4)] occurrences_plain [OF f(5)])
qed

lemma opener_jobs:
  assumes "\<forall>job \<in> set js. markup_free job"
  shows \<open>occurrences ''<div class="source-section">'' (concat (map html_job js) @ s) = occurrences ''<div class="source-section">'' s\<close>
  using assms
proof (induction js)
  case Nil
  show ?case
    by (simp only: list.map concat.simps append.simps)
next
  case (Cons job js)
  then have "markup_free job" and "\<forall>job \<in> set js. markup_free job"
    by simp_all
  then show ?case
    using Cons.IH by (simp only: list.map concat.simps append_assoc opener_job)
qed

lemma opener_section:
  assumes "CHR ''<'' \<notin> set (fst x)" and "\<forall>job \<in> set (snd x). markup_free job"
  shows \<open>occurrences ''<div class="source-section">'' (html_section x @ s) = Suc (occurrences ''<div class="source-section">'' s)\<close>
  by (simp only: html_section_def html_section_header_def append_assoc opener_parts
      occurrences_plain [OF assms(1)] occurrences_plain [OF str_nat_plain]
      opener_jobs [OF assms(2)])

lemma opener_sections:
  assumes "\<forall>x \<in> set gs. CHR ''<'' \<notin> set (fst x) \<and> (\<forall>job \<in> set (snd x). markup_free job)"
  shows \<open>occurrences ''<div class="source-section">'' (concat (map html_section gs) @ s)
           = length gs + occurrences ''<div class="source-section">'' s\<close>
  using assms
proof (induction gs)
  case Nil
  show ?case
    by (simp only: list.map concat.simps append.simps list.size add_0)
next
  case (Cons x gs)
  then have x: "CHR ''<'' \<notin> set (fst x)" "\<forall>job \<in> set (snd x). markup_free job"
    and gs: "\<forall>x \<in> set gs. CHR ''<'' \<notin> set (fst x) \<and> (\<forall>job \<in> set (snd x). markup_free job)"
    by simp_all
  show ?case
    using Cons.IH [OF gs]
    by (simp only: list.map concat.simps append_assoc opener_section [OF x] length_Cons add_Suc)
qed

lemma grouped_markup_free:
  assumes "\<forall>job \<in> set js. markup_free job"
  shows "\<forall>x \<in> set (grouped js). CHR ''<'' \<notin> set (fst x) \<and> (\<forall>job \<in> set (snd x). markup_free job)"
  using assms by (auto simp: grouped_def set_first_seen markup_free_def)

text \<open>When neither the date nor a record contains markup, there are no further openers.\<close>

lemma digest_opener_count:
  assumes "CHR ''<'' \<notin> set d" and "\<forall>job \<in> set js. markup_free job"
  shows \<open>occurrences ''<div class="source-section">'' (html_part (create_email d js r)) = card (source ` set js)\<close>
proof -
  have n: "length (grouped js) = card (source ` set js)"
    using length_first_seen [of "map source js"] by (simp add: grouped_def)
  have \<open>occurrences ''<div class="source-section">'' (html_part (create_email d js r)) =
      length (grouped js) + occurrences ''<div class="source-section">'' html_footer\<close>
    by (simp only: create_email_html html_head_def append_assoc opener_parts
        occurrences_plain [OF assms(1)] occurrences_plain [OF str_nat_plain]
        opener_sections [OF grouped_markup_free [OF assms(2)]])
  then show ?thesis
    by (simp only: opener_footer n add_0_right)
qed

subsection \<open>A record that carries markup\<close>

lemma markup_sections_text:
  \<open>concat (map html_section (grouped [markup_job])) =
       ''\<newline>'' @ ''                '' @
       ''<div class="source-section">'' @
       ''\<newline>'' @
       ''                    <h2 class="source-header">Indeed.com (1 jobs)</h2>\<newline>'' @
       ''            \<newline>'' @ ''                    <div class="job">\<newline>'' @
       ''                        <div class="job-title">x</div></div></div>'' @
       ''<div class="source-section">'' @
       ''<h2 class="source-header">Fake (7 jobs)</h2><div class="job"><div class="job-title">y</div>\<newline>'' @
       ''                        <div class="job-company">Acme</div>\<newline>'' @
       ''                        <div class="job-location">'' @
       [CHR 0xF0, CHR 0x9F, CHR 0x93, CHR 0x8D] @ '' Tampa, FL</div>\<newline>'' @
       ''                        <div class="job-description">None</div>\<newline>'' @
       ''                        <a href="https://example.org/jobs/1" class="job-link">Apply Now</a>\<newline>'' @
       ''                </div></div>''\<close>
  by code_simp

lemma markup_digest_text:
  \<open>html_part (create_email d [markup_job] r) =
       html_head_before_date @ d @ ''</p>\<newline>'' @ ''                </div>\<newline>'' @ ''                \<newline>'' @
          ''                <div class="summary">\<newline>'' @ ''                    <strong>'' @
          [CHR 0xF0, CHR 0x9F, CHR 0x93, CHR 0x8A] @ '' Summary:</strong> Found ''
       @ ''1'' @ '' outdoor and nature-related job opportunities in the Tampa Bay area.\<newline>'' @
          ''                </div>\<newline>'' @ ''        '' @
       ''\<newline>'' @ ''                '' @
       ''<div class="source-section">'' @
       ''\<newline>'' @
       ''                    <h2 class="source-header">Indeed.com (1 jobs)</h2>\<newline>'' @
       ''            \<newline>'' @ ''                    <div class="job">\<newline>'' @
       ''                        <div class="job-title">x</div></div></div>'' @
       ''<div class="source-section">'' @
       ''<h2 class="source-header">Fake (7 jobs)</h2><div class="job"><div class="job-title">y</div>\<newline>'' @
       ''                        <div class="job-company">Acme</div>\<newline>'' @
       ''                        <div class="job-location">'' @
       [CHR 0xF0, CHR 0x9F, CHR 0x93, CHR 0x8D] @ '' Tampa, FL</div>\<newline>'' @
       ''                        <div class="job-description">None</div>\<newline>'' @
       ''                        <a href="https://example.org/jobs/1" class="job-link">Apply Now</a>\<newline>'' @
       ''                </div></div>''
       @ ''\<newline>'' @ ''                <div class="footer">\<newline>'' @
          ''                    <p>Generated by Outdoor Job Scraper | Tampa Bay Area</p>\<newline>'' @
          ''                    <p>Good luck with your job search! '' @
          [CHR 0xF0, CHR 0x9F, CHR 0x8C, CHR 0xBF] @ ''</p>\<newline>'' @
          ''                </div>\<newline>'' @ ''            </div>\<newline>'' @
          ''        </body>\<newline>'' @ ''        </html>\<newline>'' @ ''        ''\<close>
proof -
  have "length [markup_job] = 1"
    by simp
  then show ?thesis
    by (simp only: create_email_html html_head_text html_footer_text markup_sections_text
        str_nat_small append_assoc)
qed

lemma markup_digest_openers:
  \<open>2 \<le> occurrences ''<div class="source-section">'' (html_part (create_email d [markup_job] r))\<close>
proof -
  have ne: \<open>''<div class="source-section">'' \<noteq> []\<close>
    by simp
  have \<open>concat (map html_section (grouped [markup_job])) =
       (''\<newline>'' @ ''                '') @
       ''<div class="source-section">'' @
       (''\<newline>'' @
       ''                    <h2 class="source-header">Indeed.com (1 jobs)</h2>\<newline>'' @
       ''            \<newline>'' @ ''                    <div class="job">\<newline>'' @
       ''                        <div class="job-title">x</div></div></div>'') @
       ''<div class="source-section">'' @
       (''<h2 class="source-header">Fake (7 jobs)</h2><div class="job"><div class="job-title">y</div>\<newline>'' @
       ''                        <div class="job-company">Acme</div>\<newline>'' @
       ''                        <div class="job-location">'' @
       [CHR 0xF0, CHR 0x9F, CHR 0x93, CHR 0x8D] @ '' Tampa, FL</div>\<newline>'' @
       ''                        <div class="job-description">None</div>\<newline>'' @
       ''                        <a href="https://example.org/jobs/1" class="job-link">Apply Now</a>\<newline>'' @
       ''                </div></div>'')\<close>
    by (simp only: markup_sections_text append_assoc)
  then have \<open>2 \<le> occurrences ''<div class="source-section">'' (concat (map html_section (grouped [markup_job])))\<close>
    using occurrences_twice [OF ne] by (simp only:)
  also have \<open>\<dots> \<le> occurrences ''<div class="source-section">''
      (html_head d (length [markup_job]) @ concat (map html_section (grouped [markup_job]))
       @ html_footer)\<close>
    by (rule occurrences_between [OF ne])
  finally show ?thesis
    by (simp only: create_email_html)
qed

text \<open>
  C5, as the claim states it, fails: the fields of a record are written into the digest
  without escaping. The one record \<open>markup_job\<close> has the source \<open>Indeed.com\<close>, and its
  title contains the markup of a section; in the digest rendered from it the section
  opener \<^verbatim>\<open><div class="source-section">\<close> starts at two positions or more, the second
  followed by the header \<^verbatim>\<open>Fake (7 jobs)\<close>, although the input has one source value and
  no record of a source \<open>Fake\<close>.
\<close>

theorem markup_adds_a_section:
  \<open>card (source ` set [markup_job]) = 1
   \<and> filter (\<lambda>job. source job = ''Fake'') [markup_job] = []
   \<and> html_part (create_email ''November 04, 2026'' [markup_job] ''me@example.com'') =
       html_head_before_date @ ''November 04, 2026'' @ ''</p>\<newline>'' @ ''                </div>\<newline>'' @ ''                \<newline>'' @
          ''                <div class="summary">\<newline>'' @ ''                    <strong>'' @
          [CHR 0xF0, CHR 0x9F, CHR 0x93, CHR 0x8A] @ '' Summary:</strong> Found ''
       @ ''1'' @ '' outdoor and nature-related job opportunities in the Tampa Bay area.\<newline>'' @
          ''                </div>\<newline>'' @ ''        '' @
       ''\<newline>'' @ ''                '' @
       ''<div class="source-section">'' @
       ''\<newline>'' @
       ''                    <h2 class="source-header">Indeed.com (1 jobs)</h2>\<newline>'' @
       ''            \<newline>'' @ ''                    <div class="job">\<newline>'' @
       ''                        <div class="job-title">x</div></div></div>'' @
       ''<div class="source-section">'' @
       ''<h2 class="source-header">Fake (7 jobs)</h2><div class="job"><div class="job-title">y</div>\<newline>'' @
       ''                        <div class="job-company">Acme</div>\<newline>'' @
       ''                        <div class="job-location">'' @
       [CHR 0xF0, CHR 0x9F, CHR 0x93, CHR 0x8D] @ '' Tampa, FL</div>\<newline>'' @
       ''                        <div class="job-description">None</div>\<newline>'' @
       ''                        <a href="https://example.org/jobs/1" class="job-link">Apply Now</a>\<newline>'' @
       ''                </div></div>''
       @ ''\<newline>'' @ ''                <div class="footer">\<newline>'' @
          ''                    <p>Generated by Outdoor Job Scraper | Tampa Bay Area</p>\<newline>'' @
          ''                    <p>Good luck with your job search! '' @
          [CHR 0xF0, CHR 0x9F, CHR 0x8C, CHR 0xBF] @ ''</p>\<newline>'' @
          ''                </div>\<newline>'' @ ''            </div>\<newline>'' @
          ''        </body>\<newline>'' @ ''        </html>\<newline>'' @ ''        ''
   \<and> 2 \<le> length (filter (prefix ''<div class="source-section">'')
            (suffixes (html_part (create_email ''November 04, 2026'' [markup_job] ''me@example.com''))))\<close>
proof -
  have a: "card (source ` set [markup_job]) = 1"
    by simp
  have b: "filter (\<lambda>job. source job = ''Fake'') [markup_job] = []"
    by (simp add: markup_job_def)
  have c: \<open>2 \<le> length (filter (prefix ''<div class="source-section">'')
            (suffixes (html_part (create_email ''November 04, 2026'' [markup_job] ''me@example.com''))))\<close>
    using markup_digest_openers [of "''November 04, 2026''" "''me@example.com''"]
    by (simp only: occurrences_suffixes)
  show ?thesis
    by (intro conjI) (rule a, rule b, rule markup_digest_text, rule c)
qed

text \<open>
  C5, amended: for every list of job records, \<^verbatim>\<open>create_email\<close> groups the records by
  their \<open>source\<close>: one group per distinct source value, in the order in which the
  sources are first seen, each with the records of that source in input order. The
  rendered digest is the head with the total, then for each group in that order one
  section, which is the opener \<^verbatim>\<open><div class="source-section">\<close>, the header
  \<^verbatim>\<open>{source} ({n} jobs)\<close> with \<open>n\<close> the number of input records of that source in
  decimal, and the blocks of these records in input order, and then the footer. The
  fields are written unescaped, so the text has at least as many section openers as
  the input has distinct source values; it has exactly as many when neither the date
  nor a displayed field of a record contains the character \<open><\<close>.
\<close>

theorem digest_sections:
  \<open>group_by_source js =
     map (\<lambda>s. (s, filter (\<lambda>job. source job = s) js)) (rev (remdups (rev (map source js))))
   \<and> length (group_by_source js) = card (source ` set js)
   \<and> html_part (create_email d js r) =
       html_head_before_date @ d @ ''</p>\<newline>'' @ ''                </div>\<newline>'' @ ''                \<newline>'' @
          ''                <div class="summary">\<newline>'' @ ''                    <strong>'' @
          [CHR 0xF0, CHR 0x9F, CHR 0x93, CHR 0x8A] @ '' Summary:</strong> Found ''
       @ str_nat (length js) @ '' outdoor and nature-related job opportunities in the Tampa Bay area.\<newline>'' @
          ''                </div>\<newline>'' @ ''        ''
       @ concat (map (\<lambda>(s, sjobs).
          ''\<newline>'' @ ''                <div class="source-section">\<newline>'' @
          ''                    <h2 class="source-header">''
          @ s @ '' ('' @ str_nat (length (filter (\<lambda>job. source job = s) js)) @ '' jobs)</h2>\<newline>'' @ ''            ''
          @ concat (map (\<lambda>job.
              ''\<newline>'' @ ''                    <div class="job">\<newline>'' @
          ''                        <div class="job-title">''
              @ title job @ ''</div>\<newline>'' @ ''                        <div class="job-company">''
              @ company job @ ''</div>\<newline>'' @ ''                        <div class="job-location">'' @
          [CHR 0xF0, CHR 0x9F, CHR 0x93, CHR 0x8D] @ '' ''
              @ location job @ ''</div>\<newline>'' @ ''                        <div class="job-description">''
              @ description job @ ''</div>\<newline>'' @ ''                        <a href="''
              @ url job @ ''" class="job-link">Apply Now</a>\<newline>'' @ ''                ''
              @ (case date_posted job of
                   None \<Rightarrow> []
                 | Some p \<Rightarrow> if p = [] then []
                            else ''<div style="font-size: 12px; color: #888; margin-top: 5px;">Posted: '' @ p @ ''</div>'')
              @ ''</div>'') sjobs)
          @ ''</div>'')
         (group_by_source js))
       @ ''\<newline>'' @ ''                <div class="footer">\<newline>'' @
          ''                    <p>Generated by Outdoor Job Scraper | Tampa Bay Area</p>\<newline>'' @
          ''                    <p>Good luck with your job search! '' @
          [CHR 0xF0, CHR 0x9F, CHR 0x8C, CHR 0xBF] @ ''</p>\<newline>'' @
          ''                </div>\<newline>'' @ ''            </div>\<newline>'' @
          ''        </body>\<newline>'' @ ''        </html>\<newline>'' @ ''        ''
   \<and> str_nat 0 = ''0''
   \<and> (\<forall>n. foldl (\<lambda>a c. 10 * a + (of_char c - 48)) 0 (str_nat n) = n
          \<and> set (str_nat n) \<subseteq> set ''0123456789''
          \<and> (hd (str_nat n) = CHR ''0'') = (n = 0))
   \<and> card (source ` set js)
       \<le> length (filter (prefix ''<div class="source-section">'') (suffixes (html_part (create_email d js r))))
   \<and> (CHR ''<'' \<notin> set d \<and> (\<forall>job \<in> set js. markup_free job) \<longrightarrow>
       length (filter (prefix ''<div class="source-section">'') (suffixes (html_part (create_email d js r))))
         = card (source ` set js))\<close>
proof -
  have a: \<open>group_by_source js =
     map (\<lambda>s. (s, filter (\<lambda>job. source job = s) js)) (rev (remdups (rev (map source js))))\<close>
    by (simp add: group_by_source_grouped grouped_def first_seen_def)
  have b: "length (group_by_source js) = card (source ` set js)"
    using length_first_seen [of "map source js"]
    by (simp add: group_by_source_grouped grouped_def)
  have f: \<open>card (source ` set js)
       \<le> length (filter (prefix ''<div class="source-section">'') (suffixes (html_part (create_email d js r))))\<close>
    using digest_occurrences [of js d r] by (simp only: occurrences_suffixes)
  have g: \<open>CHR ''<'' \<notin> set d \<and> (\<forall>job \<in> set js. markup_free job) \<longrightarrow>
       length (filter (prefix ''<div class="source-section">'') (suffixes (html_part (create_email d js r))))
         = card (source ` set js)\<close>
  proof (rule impI)
    assume h: "CHR ''<'' \<notin> set d \<and> (\<forall>job \<in> set js. markup_free job)"
    show \<open>length (filter (prefix ''<div class="source-section">'') (suffixes (html_part (create_email d js r))))
         = card (source ` set js)\<close>
      using digest_opener_count [OF conjunct1 [OF h] conjunct2 [OF h], of r]
      by (simp only: occurrences_suffixes)
  qed
  show ?thesis
    by (intro conjI) (rule a, rule b, rule digest_text, rule str_nat_decimal [THEN conjunct1],
        rule str_nat_decimal [THEN conjunct2], rule f, rule g)
qed

lemma plain_jobs_markup_free: "\<forall>job \<in> set plain_jobs. markup_free job"
  by (simp add: plain_jobs_def markup_free_def)

lemma plain_jobs_groups:
  \<open>map (\<lambda>s. (s, map title (filter (\<lambda>job. source job = s) plain_jobs)))
       (rev (remdups (rev (map source plain_jobs)))) =
     [(''Indeed.com'', [''Park Aide'', ''Park Ranger'']), (''Pinellas County Parks'', [''Naturalist''])]\<close>
  by (simp add: plain_jobs_def)

theorem digest_sections_witness:
  \<open>map (\<lambda>(s, sjobs). (s, map title sjobs)) (group_by_source plain_jobs) =
     [(''Indeed.com'', [''Park Aide'', ''Park Ranger'']), (''Pinellas County Parks'', [''Naturalist''])]
   \<and> length (filter (prefix ''<div class="source-section">'')
        (suffixes (html_part (create_email ''November 04, 2026'' plain_jobs ''me@example.com'')))) = 2\<close>
proof -
  note t = digest_sections [of plain_jobs "''November 04, 2026''" "''me@example.com''"]
  note t1 = t [THEN conjunct1]
  note t2 = t [THEN conjunct2, THEN conjunct1]
  note t6 = t [THEN conjunct2, THEN conjunct2, THEN conjunct2, THEN conjunct2, THEN conjunct2,
      THEN conjunct2]
  have plain_date: \<open>CHR ''<'' \<notin> set ''November 04, 2026''\<close>
    by simp
  have a: \<open>map (\<lambda>(s, sjobs). (s, map title sjobs)) (group_by_source plain_jobs) =
     [(''Indeed.com'', [''Park Aide'', ''Park Ranger'']), (''Pinellas County Parks'', [''Naturalist''])]\<close>
    unfolding t1 using plain_jobs_groups by (simp add: comp_def)
  have "length (group_by_source plain_jobs) =
      length (map (\<lambda>(s, sjobs). (s, map title sjobs)) (group_by_source plain_jobs))"
    by simp
  also have "\<dots> = 2"
    unfolding a by simp
  finally have n: "card (source ` set plain_jobs) = 2"
    unfolding t2 .
  have b: \<open>length (filter (prefix ''<div class="source-section">'')
        (suffixes (html_part (create_email ''November 04, 2026'' plain_jobs ''me@example.com'')))) = 2\<close>
    using t6 plain_date plain_jobs_markup_free n by (simp only: simp_thms)
  show ?thesis
    by (intro conjI) (rule a, rule b)
qed

subsection \<open>The digest of the sample records\<close>

lemma grouped_samples:
  "grouped create_sample_jobs = map (\<lambda>job. (source job, [job])) create_sample_jobs"
  by (simp add: grouped_def first_seen_def create_sample_jobs_def)

lemma sample_sections_text:
  \<open>concat (map html_section (grouped create_sample_jobs)) =
       ''\<newline>'' @ ''                <div class="source-section">\<newline>'' @
       ''                    <h2 class="source-header">Hillsborough County Parks (1 jobs)</h2>\<newline>'' @
       ''            \<newline>'' @ ''                    <div class="job">\<newline>'' @
       ''                        <div class="job-title">Park Ranger - Entry Level</div>\<newline>'' @
       ''                        <div class="job-company">Hillsborough County Parks</div>\<newline>'' @
       ''                        <div class="job-location">'' @
       [CHR 0xF0, CHR 0x9F, CHR 0x93, CHR 0x8D] @ '' Tampa, FL</div>\<newline>'' @
       ''                        <div class="job-description">Assist with park maintenance, visitor services, and environmental education programs. Great opportunity for outdoor enthusiasts!</div>\<newline>'' @
       ''                        <a href="https://www.hillsboroughcounty.org/jobs" class="job-link">Apply Now</a>\<newline>'' @
       ''                <div style="font-size: 12px; color: #888; margin-top: 5px;">Posted: Recent</div></div></div>\<newline>'' @
       ''                <div class="source-section">\<newline>'' @
       ''                    <h2 class="source-header">Pinellas County Parks (1 jobs)</h2>\<newline>'' @
       ''            \<newline>'' @ ''                    <div class="job">\<newline>'' @
       ''                        <div class="job-title">Environmental Specialist</div>\<newline>'' @
       ''                        <div class="job-company">Pinellas County</div>\<newline>'' @
       ''                        <div class="job-location">'' @
       [CHR 0xF0, CHR 0x9F, CHR 0x93, CHR 0x8D] @ '' St. Petersburg, FL</div>\<newline>'' @
       ''                        <div class="job-description">Work on environmental conservation projects and outdoor education programs in beautiful Pinellas County parks.</div>\<newline>'' @
       ''                        <a href="https://www.pinellas.gov/jobs" class="job-link">Apply Now</a>\<newline>'' @
       ''                <div style="font-size: 12px; color: #888; margin-top: 5px;">Posted: Recent</div></div></div>\<newline>'' @
       ''                <div class="source-section">\<newline>'' @
       ''                    <h2 class="source-header">Tampa Parks & Recreation (1 jobs)</h2>\<newline>'' @
       ''            \<newline>'' @ ''                    <div class="job">\<newline>'' @
       ''                        <div class="job-title">Recreation Coordinator</div>\<newline>'' @
       ''                        <div class="job-company">City of Tampa</div>\<newline>'' @
       ''                        <div class="job-location">'' @
       [CHR 0xF0, CHR 0x9F, CHR 0x93, CHR 0x8D] @ '' Tampa, FL</div>\<newline>'' @
       ''                        <div class="job-description">Plan and coordinate outdoor recreational activities and nature programs for city residents.</div>\<newline>'' @
       ''                        <a href="https://www.tampa.gov/jobs" class="job-link">Apply Now</a>\<newline>'' @
       ''                <div style="font-size: 12px; color: #888; margin-top: 5px;">Posted: Recent</div></div></div>\<newline>'' @
       ''                <div class="source-section">\<newline>'' @
       ''                    <h2 class="source-header">Florida State Parks (1 jobs)</h2>\<newline>'' @
       ''            \<newline>'' @ ''                    <div class="job">\<newline>'' @
       ''                        <div class="job-title">Wildlife Biologist Assistant</div>\<newline>'' @
       ''                        <div class="job-company">Florida State Parks</div>\<newline>'' @
       ''                        <div class="job-location">'' @
       [CHR 0xF0, CHR 0x9F, CHR 0x93, CHR 0x8D] @ '' Tampa Bay Area, FL</div>\<newline>'' @
       ''                        <div class="job-description">Support wildlife research and conservation efforts in state parks throughout the Tampa Bay region.</div>\<newline>'' @
       ''                        <a href="https://www.floridastateparks.org/jobs" class="job-link">Apply Now</a>\<newline>'' @
       ''                <div style="font-size: 12px; color: #888; margin-top: 5px;">Posted: Recent</div></div></div>\<newline>'' @
       ''                <div class="source-section">\<newline>'' @
       ''                    <h2 class="source-header">Indeed.com (1 jobs)</h2>\<newline>'' @
       ''            \<newline>'' @ ''                    <div class="job">\<newline>'' @
       ''                        <div class="job-title">Outdoor Education Instructor</div>\<newline>'' @
       ''                        <div class="job-company">Tampa Bay Nature Center</div>\<newline>'' @
       ''                        <div class="job-location">'' @
       [CHR 0xF0, CHR 0x9F, CHR 0x93, CHR 0x8D] @ '' Tampa, FL</div>\<newline>'' @
       ''                        <div class="job-description">Lead educational programs about local wildlife and ecosystems for school groups and families.</div>\<newline>'' @
       ''                        <a href="https://example.com/apply" class="job-link">Apply Now</a>\<newline>'' @
       ''                <div style="font-size: 12px; color: #888; margin-top: 5px;">Posted: Recent</div></div></div>''\<close>
  by code_simp

lemma sample_digest_text:
  \<open>html_part (create_email d create_sample_jobs r) =
       html_head_before_date @ d @ ''</p>\<newline>'' @ ''                </div>\<newline>'' @ ''                \<newline>'' @
          ''                <div class="summary">\<newline>'' @ ''                    <strong>'' @
          [CHR 0xF0, CHR 0x9F, CHR 0x93, CHR 0x8A] @ '' Summary:</strong> Found ''
       @ ''5'' @ '' outdoor and nature-related job opportunities in the Tampa Bay area.\<newline>'' @
          ''                </div>\<newline>'' @ ''        '' @
       ''\<newline>'' @ ''                <div class="source-section">\<newline>'' @
       ''                    <h2 class="source-header">Hillsborough County Parks (1 jobs)</h2>\<newline>'' @
       ''            \<newline>'' @ ''                    <div class="job">\<newline>'' @
       ''                        <div class="job-title">Park Ranger - Entry Level</div>\<newline>'' @
       ''                        <div class="job-company">Hillsborough County Parks</div>\<newline>'' @
       ''                        <div class="job-location">'' @
       [CHR 0xF0, CHR 0x9F, CHR 0x93, CHR 0x8D] @ '' Tampa, FL</div>\<newline>'' @
       ''                        <div class="job-description">Assist with park maintenance, visitor services, and environmental education programs. Great opportunity for outdoor enthusiasts!</div>\<newline>'' @
       ''                        <a href="https://www.hillsboroughcounty.org/jobs" class="job-link">Apply Now</a>\<newline>'' @
       ''                <div style="font-size: 12px; color: #888; margin-top: 5px;">Posted: Recent</div></div></div>\<newline>'' @
       ''                <div class="source-section">\<newline>'' @
       ''                    <h2 class="source-header">Pinellas County Parks (1 jobs)</h2>\<newline>'' @
       ''            \<newline>'' @ ''                    <div class="job">\<newline>'' @
       ''                        <div class="job-title">Environmental Specialist</div>\<newline>'' @
       ''                        <div class="job-company">Pinellas County</div>\<newline>'' @
       ''                        <div class="job-location">'' @
       [CHR 0xF0, CHR 0x9F, CHR 0x93, CHR 0x8D] @ '' St. Petersburg, FL</div>\<newline>'' @
       ''                        <div class="job-description">Work on environmental conservation projects and outdoor education programs in beautiful Pinellas County parks.</div>\<newline>'' @
       ''                        <a href="https://www.pinellas.gov/jobs" class="job-link">Apply Now</a>\<newline>'' @
       ''                <div style="font-size: 12px; color: #888; margin-top: 5px;">Posted: Recent</div></div></div>\<newline>'' @
       ''                <div class="source-section">\<newline>'' @
       ''                    <h2 class="source-header">Tampa Parks & Recreation (1 jobs)</h2>\<newline>'' @
       ''            \<newline>'' @ ''                    <div class="job">\<newline>'' @
       ''                        <div class="job-title">Recreation Coordinator</div>\<newline>'' @
       ''                        <div class="job-company">City of Tampa</div>\<newline>'' @
       ''                        <div class="job-location">'' @
       [CHR 0xF0, CHR 0x9F, CHR 0x93, CHR 0x8D] @ '' Tampa, FL</div>\<newline>'' @
       ''                        <div class="job-description">Plan and coordinate outdoor recreational activities and nature programs for city residents.</div>\<newline>'' @
       ''                        <a href="https://www.tampa.gov/jobs" class="job-link">Apply Now</a>\<newline>'' @
       ''                <div style="font-size: 12px; color: #888; margin-top: 5px;">Posted: Recent</div></div></div>\<newline>'' @
       ''                <div class="source-section">\<newline>'' @
       ''                    <h2 class="source-header">Florida State Parks (1 jobs)</h2>\<newline>'' @
       ''            \<newline>'' @ ''                    <div class="job">\<newline>'' @
       ''                        <div class="job-title">Wildlife Biologist Assistant</div>\<newline>'' @
       ''                        <div class="job-company">Florida State Parks</div>\<newline>'' @
       ''                        <div class="job-location">'' @
       [CHR 0xF0, CHR 0x9F, CHR 0x93, CHR 0x8D] @ '' Tampa Bay Area, FL</div>\<newline>'' @
       ''                        <div class="job-description">Support wildlife research and conservation efforts in state parks throughout the Tampa Bay region.</div>\<newline>'' @
       ''                        <a href="https://www.floridastateparks.org/jobs" class="job-link">Apply Now</a>\<newline>'' @
       ''                <div style="font-size: 12px; color: #888; margin-top: 5px;">Posted: Recent</div></div></div>\<newline>'' @
       ''                <div class="source-section">\<newline>'' @
       ''                    <h2 class="source-header">Indeed.com (1 jobs)</h2>\<newline>'' @
       ''            \<newline>'' @ ''                    <div class="job">\<newline>'' @
       ''                        <div class="job-title">Outdoor Education Instructor</div>\<newline>'' @
       ''                        <div class="job-company">Tampa Bay Nature Center</div>\<newline>'' @
       ''                        <div class="job-location">'' @
       [CHR 0xF0, CHR 0x9F, CHR 0x93, CHR 0x8D] @ '' Tampa, FL</div>\<newline>'' @
       ''                        <div class="job-description">Lead educational programs about local wildlife and ecosystems for school groups and families.</div>\<newline>'' @
       ''                        <a href="https://example.com/apply" class="job-link">Apply Now</a>\<newline>'' @
       ''                <div style="font-size: 12px; color: #888; margin-top: 5px;">Posted: Recent</div></div></div>''
       @ ''\<newline>'' @ ''                <div class="footer">\<newline>'' @
          ''                    <p>Generated by Outdoor Job Scraper | Tampa Bay Area</p>\<newline>'' @
          ''                    <p>Good luck with your job search! '' @
          [CHR 0xF0, CHR 0x9F, CHR 0x8C, CHR 0xBF] @ ''</p>\<newline>'' @
          ''                </div>\<newline>'' @ ''            </div>\<newline>'' @
          ''        </body>\<newline>'' @ ''        </html>\<newline>'' @ ''        ''\<close>
proof -
  have "length create_sample_jobs = 5"
    by (simp add: create_sample_jobs_def)
  then show ?thesis
    by (simp only: create_email_html html_head_text html_footer_text sample_sections_text
        str_nat_small append_assoc)
qed

lemma samples_markup_free: "\<forall>job \<in> set create_sample_jobs. markup_free job"
  by (simp add: create_sample_jobs_def markup_free_def)

lemma sample_sources: "card (source ` set create_sample_jobs) = 5"
  using length_first_seen [of "map source create_sample_jobs"] grouped_samples
  by (simp add: grouped_def create_sample_jobs_def)

text \<open>
  C9, as the claim states it, fails: the five sample records have five different
  sources, so the digest rendered from them has five source sections, not two.
\<close>

theorem sample_digest_has_five_sections:
  "map fst (group_by_source create_sample_jobs) =
     [''Hillsborough County Parks'', ''Pinellas County Parks'', ''Tampa Parks & Recreation'',
      ''Florida State Parks'', ''Indeed.com'']
   \<and> length (group_by_source create_sample_jobs) \<noteq> 2"
  by (simp add: group_by_source_grouped grouped_samples) (simp add: create_sample_jobs_def)

text \<open>
  C9, amended: in a run of a new scraper where every source yields no record and the
  backup file can be written, \<^verbatim>\<open>run_scraping\<close> returns exactly the five sample
  records (and writes them to the backup file), and the digest rendered from them contains
  five source sections, one per sample record in the order of the samples, with the
  headers \<^verbatim>\<open>Hillsborough County Parks (1 jobs)\<close>, \<^verbatim>\<open>Pinellas County Parks (1 jobs)\<close>,
  \<^verbatim>\<open>Tampa Parks & Recreation (1 jobs)\<close>, \<^verbatim>\<open>Florida State Parks (1 jobs)\<close> and
  \<^verbatim>\<open>Indeed.com (1 jobs)\<close>, each followed by the block of its one record; the total
  shown is 5. When the date contains no \<open><\<close>, the text has exactly five section
  openers.
\<close>

theorem no_live_records_digest:
  assumes "scrape_indeed w = Inr []"
    and "scrape_hillsborough_parks w = []" and "scrape_pinellas_parks w = []"
    and "scrape_tampa_parks w = []" and "scrape_stpete_parks w = []"
    and "scrape_fl_state_parks w = []"
    and "can_write w (backup_name w)"
  shows \<open>run_scraping w (init_scraper email) files =
      Inr (\<lparr>email_address = email, jobs = create_sample_jobs\<rparr>,
           files(backup_name w \<mapsto> json_dumps (map asdict create_sample_jobs)))
    \<and> map title create_sample_jobs =
       [''Park Ranger - Entry Level'', ''Environmental Specialist'', ''Recreation Coordinator'',
        ''Wildlife Biologist Assistant'', ''Outdoor Education Instructor'']
    \<and> map (\<lambda>(s, sjobs). (s, length sjobs)) (group_by_source create_sample_jobs) =
       [(''Hillsborough County Parks'', 1), (''Pinellas County Parks'', 1),
        (''Tampa Parks & Recreation'', 1), (''Florida State Parks'', 1), (''Indeed.com'', 1)]
    \<and> html_part (create_email d create_sample_jobs r) =
       html_head_before_date @ d @ ''</p>\<newline>'' @ ''                </div>\<newline>'' @ ''                \<newline>'' @
          ''                <div class="summary">\<newline>'' @ ''                    <strong>'' @
          [CHR 0xF0, CHR 0x9F, CHR 0x93, CHR 0x8A] @ '' Summary:</strong> Found ''
       @ ''5'' @ '' outdoor and nature-related job opportunities in the Tampa Bay area.\<newline>'' @
          ''                </div>\<newline>'' @ ''        '' @
       ''\<newline>'' @ ''                <div class="source-section">\<newline>'' @
       ''                    <h2 class="source-header">Hillsborough County Parks (1 jobs)</h2>\<newline>'' @
       ''            \<newline>'' @ ''                    <div class="job">\<newline>'' @
       ''                        <div class="job-title">Park Ranger - Entry Level</div>\<newline>'' @
       ''                        <div class="job-company">Hillsborough County Parks</div>\<newline>'' @
       ''                        <div class="job-location">'' @
       [CHR 0xF0, CHR 0x9F, CHR 0x93, CHR 0x8D] @ '' Tampa, FL</div>\<newline>'' @
       ''                        <div class="job-description">Assist with park maintenance, visitor services, and environmental education programs. Great opportunity for outdoor enthusiasts!</div>\<newline>'' @
       ''                        <a href="https://www.hillsboroughcounty.org/jobs" class="job-link">Apply Now</a>\<newline>'' @
       ''                <div style="font-size: 12px; color: #888; margin-top: 5px;">Posted: Recent</div></div></div>\<newline>'' @
       ''                <div class="source-section">\<newline>'' @
       ''                    <h2 class="source-header">Pinellas County Parks (1 jobs)</h2>\<newline>'' @
       ''            \<newline>'' @ ''                    <div class="job">\<newline>'' @
       ''                        <div class="job-title">Environmental Specialist</div>\<newline>'' @
       ''                        <div class="job-company">Pinellas County</div>\<newline>'' @
       ''                        <div class="job-location">'' @
       [CHR 0xF0, CHR 0x9F, CHR 0x93, CHR 0x8D] @ '' St. Petersburg, FL</div>\<newline>'' @
       ''                        <div class="job-description">Work on environmental conservation projects and outdoor education programs in beautiful Pinellas County parks.</div>\<newline>'' @
       ''                        <a href="https://www.pinellas.gov/jobs" class="job-link">Apply Now</a>\<newline>'' @
       ''                <div style="font-size: 12px; color: #888; margin-top: 5px;">Posted: Recent</div></div></div>\<newline>'' @
       ''                <div class="source-section">\<newline>'' @
       ''                    <h2 class="source-header">Tampa Parks & Recreation (1 jobs)</h2>\<newline>'' @
       ''            \<newline>'' @ ''                    <div class="job">\<newline>'' @
       ''                        <div class="job-title">Recreation Coordinator</div>\<newline>'' @
       ''                        <div class="job-company">City of Tampa</div>\<newline>'' @
       ''                        <div class="job-location">'' @
       [CHR 0xF0, CHR 0x9F, CHR 0x93, CHR 0x8D] @ '' Tampa, FL</div>\<newline>'' @
       ''                        <div class="job-description">Plan and coordinate outdoor recreational activities and nature programs for city residents.</div>\<newline>'' @
       ''                        <a href="https://www.tampa.gov/jobs" class="job-link">Apply Now</a>\<newline>'' @
       ''                <div style="font-size: 12px; color: #888; margin-top: 5px;">Posted: Recent</div></div></div>\<newline>'' @
       ''                <div class="source-section">\<newline>'' @
       ''                    <h2 class="source-header">Florida State Parks (1 jobs)</h2>\<newline>'' @
       ''            \<newline>'' @ ''                    <div class="job">\<newline>'' @
       ''                        <div class="job-title">Wildlife Biologist Assistant</div>\<newline>'' @
       ''                        <div class="job-company">Florida State Parks</div>\<newline>'' @
       ''                        <div class="job-location">'' @
       [CHR 0xF0, CHR 0x9F, CHR 0x93, CHR 0x8D] @ '' Tampa Bay Area, FL</div>\<newline>'' @
       ''                        <div class="job-description">Support wildlife research and conservation efforts in state parks throughout the Tampa Bay region.</div>\<newline>'' @
       ''                        <a href="https://www.floridastateparks.org/jobs" class="job-link">Apply Now</a>\<newline>'' @
       ''                <div style="font-size: 12px; color: #888; margin-top: 5px;">Posted: Recent</div></div></div>\<newline>'' @
       ''                <div class="source-section">\<newline>'' @
       ''                    <h2 class="source-header">Indeed.com (1 jobs)</h2>\<newline>'' @
       ''            \<newline>'' @ ''                    <div class="job">\<newline>'' @
       ''                        <div class="job-title">Outdoor Education Instructor</div>\<newline>'' @
       ''                        <div class="job-company">Tampa Bay Nature Center</div>\<newline>'' @
       ''                        <div class="job-location">'' @
       [CHR 0xF0, CHR 0x9F, CHR 0x93, CHR 0x8D] @ '' Tampa, FL</div>\<newline>'' @
       ''                        <div class="job-description">Lead educational programs about local wildlife and ecosystems for school groups and families.</div>\<newline>'' @
       ''                        <a href="https://example.com/apply" class="job-link">Apply Now</a>\<newline>'' @
       ''                <div style="font-size: 12px; color: #888; margin-top: 5px;">Posted: Recent</div></div></div>''
       @ ''\<newline>'' @ ''                <div class="footer">\<newline>'' @
          ''                    <p>Generated by Outdoor Job Scraper | Tampa Bay Area</p>\<newline>'' @
          ''                    <p>Good luck with your job search! '' @
          [CHR 0xF0, CHR 0x9F, CHR 0x8C, CHR 0xBF] @ ''</p>\<newline>'' @
          ''                </div>\<newline>'' @ ''            </div>\<newline>'' @
          ''        </body>\<newline>'' @ ''        </html>\<newline>'' @ ''        ''
    \<and> (CHR ''<'' \<notin> set d \<longrightarrow>
       length (filter (prefix ''<div class="source-section">'')
         (suffixes (html_part (create_email d create_sample_jobs r)))) = 5)\<close>
proof -
  have "scrape_county_parks w = []"
    using assms(2-6) by (simp add: scrape_county_parks_eq)
  then have a: "run_scraping w (init_scraper email) files =
      Inr (\<lparr>email_address = email, jobs = create_sample_jobs\<rparr>,
           files(backup_name w \<mapsto> json_dumps (map asdict create_sample_jobs)))"
    using run_scraping_eq [OF assms(1,7), of "init_scraper email" files]
    by (simp add: init_scraper_def)
  have b: "map (\<lambda>(s, sjobs). (s, length sjobs)) (group_by_source create_sample_jobs) =
       [(''Hillsborough County Parks'', 1), (''Pinellas County Parks'', 1),
        (''Tampa Parks & Recreation'', 1), (''Florida State Parks'', 1), (''Indeed.com'', 1)]"
    by (simp add: group_by_source_grouped grouped_samples) (simp add: create_sample_jobs_def)
  have c: \<open>CHR ''<'' \<notin> set d \<longrightarrow>
       length (filter (prefix ''<div class="source-section">'')
         (suffixes (html_part (create_email d create_sample_jobs r)))) = 5\<close>
  proof (rule impI)
    assume h: "CHR ''<'' \<notin> set d"
    show \<open>length (filter (prefix ''<div class="source-section">'')
         (suffixes (html_part (create_email d create_sample_jobs r)))) = 5\<close>
      using digest_opener_count [OF h samples_markup_free, of r]
      by (simp only: occurrences_suffixes sample_sources)
  qed
  show ?thesis
    by (intro conjI) (rule a, rule sample_titles, rule b, rule sample_digest_text, rule c)
qed

theorem no_live_records_digest_witness:
  \<open>map_sum id (jobs \<circ> fst) (run_scraping offline_world (init_scraper ''me@example.com'') Map.empty)
     = Inr create_sample_jobs
   \<and> length (group_by_source create_sample_jobs) = 5
   \<and> length (filter (prefix ''<div class="source-section">'')
       (suffixes (html_part (create_email ''November 04, 2026'' create_sample_jobs ''me@example.com'')))) = 5\<close>
proof -
  have e: "scrape_hillsborough_parks offline_world = []" "scrape_pinellas_parks offline_world = []"
    "scrape_tampa_parks offline_world = []" "scrape_stpete_parks offline_world = []"
    "scrape_fl_state_parks offline_world = []"
    using offline_scrapes(2) by (simp_all add: scrape_county_parks_eq)
  note t = no_live_records_digest [OF offline_scrapes(1) e offline_scrapes(3),
      of "''me@example.com''" Map.empty "''November 04, 2026''" "''me@example.com''"]
  note t1 = t [THEN conjunct1]
  note t3 = t [THEN conjunct2, THEN conjunct2, THEN conjunct1]
  note t5 = t [THEN conjunct2, THEN conjunct2, THEN conjunct2, THEN conjunct2]
  have a: "map_sum id (jobs \<circ> fst)
      (run_scraping offline_world (init_scraper ''me@example.com'') Map.empty)
     = Inr create_sample_jobs"
    using t1 by simp
  have "length (group_by_source create_sample_jobs) =
      length (map (\<lambda>(s, sjobs). (s, length sjobs)) (group_by_source create_sample_jobs))"
    by simp
  also have "\<dots> = 5"
    unfolding t3 by simp
  finally have b: "length (group_by_source create_sample_jobs) = 5" .
  have plain_date: \<open>CHR ''<'' \<notin> set ''November 04, 2026''\<close>
    by simp
  have c: \<open>length (filter (prefix ''<div class="source-section">'')
       (suffixes (html_part (create_email ''November 04, 2026'' create_sample_jobs ''me@example.com'')))) = 5\<close>
    using t5 plain_date by (simp only: simp_thms)
  show ?thesis
    by (intro conjI) (rule a, rule b, rule c)
qed

section \<open>Properties of the persister\<close>

subsection \<open>Records and dictionaries\<close>

lemma from_dict_asdict: "from_dict (asdict j) = Some j"
  by (simp add: from_dict_def asdict_def field_names_def required_def optional_def)

lemma those_jobs_asdict: "those_jobs (map from_dict (map asdict js)) = Some js"
  by (induction js) (simp_all add: from_dict_asdict)

subsection \<open>Strings\<close>

lemma hex_value_digit_all:
  "\<forall>k \<in> set [0, 1, 2, 3, 4, 5, 6, 7, 8, 9, 10, 11, 12, 13, 14, 15].
     hex_value (hex_digit k) = Some k"
  by (simp add: hex_digit_def hex_value_def)

lemma hex_value_digit: "k < 16 \<Longrightarrow> hex_value (hex_digit k) = Some k"
proof -
  assume "k < 16"
  then have "k \<in> set [0, 1, 2, 3, 4, 5, 6, 7, 8, 9, 10, 11, 12, 13, 14, 15]"
    by (simp add: less_Suc_eq numeral_eq_Suc) 
  then show ?thesis
    using hex_value_digit_all by blast
qed

lemma hex_value_zero: "hex_value (CHR ''0'') = Some 0"
  by (simp add: hex_value_def)

lemma hex4_control:
  assumes "n < 32"
  shows "hex4 (CHR ''0'') (CHR ''0'') (hex_digit (n div 16)) (hex_digit (n mod 16)) = Some n"
proof -
  have "n div 16 < 16" "n mod 16 < 16"
    using assms by auto
  then show ?thesis
    by (simp add: hex4_def hex_value_zero hex_value_digit)
qed

lemma parse_escape:
  "parse_string_body (json_escape c @ tail) = cons_result c (parse_string_body tail)"
proof (cases "(of_char c :: nat) < 32")
  case True
  note ctl = this
  show ?thesis
  proof (cases "c \<in> set [CHR 0x0A, CHR 0x0D, CHR 0x09, CHR 0x08, CHR 0x0C]")
    case True
    then show ?thesis
      by (auto simp: json_escape_def unescape_def)
  next
    case False
    have q: "c \<noteq> CHR 0x22" "c \<noteq> CHR 0x5C"
      using ctl by auto
    have "json_escape c = [CHR 0x5C, CHR ''u'', CHR ''0'', CHR ''0'',
         hex_digit (of_char c div 16), hex_digit (of_char c mod 16)]"
      using False q ctl by (simp add: json_escape_def)
    then show ?thesis
      using hex4_control [OF ctl] ctl by simp
  qed
next
  case False
  show ?thesis
  proof (cases "c = CHR 0x22 \<or> c = CHR 0x5C")
    case True
    then show ?thesis
      by (auto simp: json_escape_def unescape_def)
  next
    case nq: False
    have "c \<notin> set [CHR 0x0A, CHR 0x0D, CHR 0x09, CHR 0x08, CHR 0x0C]"
      using False by auto
    then have "json_escape c = [c]"
      using False nq by (simp add: json_escape_def)
    then show ?thesis
      using False nq by simp
  qed
qed

lemma parse_string_body_escaped:
  "parse_string_body (concat (map json_escape s) @ CHR 0x22 # rest) = Some (s, rest)"
  by (induction s) (simp_all add: parse_escape cons_result_def)

subsection \<open>Objects and lists\<close>

lemma skip_ws_indent [simp]: "skip_ws (newline_indent l @ s) = skip_ws s"
  by (simp add: skip_ws_def newline_indent_def json_ws_def dropWhile_append)

lemma skip_ws_space [simp]: "skip_ws (CHR 0x20 # s) = skip_ws s"
  by (simp add: skip_ws_def json_ws_def)

lemma skip_ws_sig [simp]:
  "skip_ws (CHR 0x22 # s) = CHR 0x22 # s"
  "skip_ws (CHR '':'' # s) = CHR '':'' # s"
  "skip_ws (CHR '','' # s) = CHR '','' # s"
  "skip_ws (CHR ''{'' # s) = CHR ''{'' # s"
  "skip_ws (CHR ''}'' # s) = CHR ''}'' # s"
  "skip_ws (CHR ''['' # s) = CHR ''['' # s"
  "skip_ws (CHR '']'' # s) = CHR '']'' # s"
  "skip_ws (CHR ''n'' # s) = CHR ''n'' # s"
  "skip_ws [] = []"
  by (simp_all add: skip_ws_def json_ws_def)

lemma encode_basestring_Cons:
  "encode_basestring s @ rest = CHR 0x22 # concat (map json_escape s) @ CHR 0x22 # rest"
  by (simp add: encode_basestring_def)

lemma parse_value_json_value:
  "parse_value (CHR 0x20 # json_value v @ rest) = Some (v, rest)"
proof (cases v)
  case None
  then show ?thesis by (simp add: json_value_def)
next
  case (Some s)
  then show ?thesis
    by (simp add: json_value_def encode_basestring_Cons parse_string_body_escaped)
qed

lemma parse_member_step:
  "parse_members (Suc n) (newline_indent 2 @ json_member (k, v) @ after) =
     (case skip_ws after of
        d # s5 \<Rightarrow>
          if d = CHR '','' then map_option (\<lambda>(m, rest). ((k, v) # m, rest)) (parse_members n s5)
          else if d = CHR ''}'' then Some ([(k, v)], s5)
          else None
      | [] \<Rightarrow> None)"
proof -
  have "json_member (k, v) @ after =
      CHR 0x22 # concat (map json_escape k) @ CHR 0x22 # CHR '':'' # CHR 0x20 # json_value v @ after"
    by (simp add: json_member_def encode_basestring_def)
  then show ?thesis
    by (simp add: parse_string_body_escaped parse_value_json_value del: parse_value.simps)
qed

lemma parse_members_joined:
  assumes "d \<noteq> []" and "length d \<le> n"
  shows "parse_members n
       (newline_indent 2 @ str_join ('','' @ newline_indent 2) (map json_member d)
        @ newline_indent 1 @ ''}'' @ rest) = Some (d, rest)"
  using assms
proof (induction d arbitrary: n)
  case Nil
  then show ?case by simp
next
  case (Cons kv d)
  obtain k v where kv: "kv = (k, v)" by (cases kv)
  obtain m where n: "n = Suc m" and m: "length d \<le> m"
    using Cons.prems(2) by (cases n) auto
  show ?case
  proof (cases d)
    case Nil
    then show ?thesis
      unfolding n kv using parse_member_step [of m k v "newline_indent 1 @ ''}'' @ rest"]
      by simp
  next
    case (Cons kv' d')
    have ih: "parse_members m
       (newline_indent 2 @ str_join ('','' @ newline_indent 2) (map json_member d)
        @ newline_indent 1 @ ''}'' @ rest) = Some (d, rest)"
      using Cons.IH [of m] m Cons by simp
    have "parse_members (Suc m)
       (newline_indent 2 @ json_member (k, v) @ ('','' @ newline_indent 2 @
          str_join ('','' @ newline_indent 2) (map json_member d)
          @ newline_indent 1 @ ''}'' @ rest)) = Some ((k, v) # d, rest)"
      unfolding parse_member_step using ih by simp
    then show ?thesis
      unfolding n kv using Cons by simp
  qed
qed

lemma members_start:
  assumes "d \<noteq> []"
  shows "\<exists>t. str_join sep (map json_member d) @ x = CHR 0x22 # t"
proof -
  obtain kv d' where d: "d = kv # d'"
    using assms by (cases d) auto
  show ?thesis
    unfolding d by (cases d') (simp_all add: json_member_def encode_basestring_def)
qed

lemma parse_dict_json_dict:
  assumes "length d \<le> n"
  shows "parse_dict n (newline_indent l @ json_dict d @ rest) = Some (d, rest)"
proof (cases "d = []")
  case True
  then show ?thesis by (simp add: parse_dict_def json_dict_def)
next
  case False
  let ?body = "str_join ('','' @ newline_indent 2) (map json_member d)
        @ newline_indent 1 @ ''}'' @ rest"
  obtain t where t: "?body = CHR 0x22 # t"
    using members_start [OF False] by blast
  have 1: "skip_ws (newline_indent l @ json_dict d @ rest) =
      CHR ''{'' # (newline_indent 2 @ ?body)"
    using False by (simp add: json_dict_def)
  have 2: "skip_ws (newline_indent 2 @ ?body) = CHR 0x22 # t"
    by (simp only: skip_ws_indent t skip_ws_sig)
  have 3: "parse_members n (newline_indent 2 @ ?body) = Some (d, rest)"
    by (rule parse_members_joined [OF False assms])
  show ?thesis
    by (simp only: parse_dict_def 1 2 3 list.case) simp
qed

lemma parse_element_step:
  assumes "length d \<le> fuel"
  shows "parse_elements fuel (Suc n) (newline_indent 1 @ json_dict d @ after) =
     (case skip_ws after of
        c # s2 \<Rightarrow>
          if c = CHR '','' then map_option (\<lambda>(ds, rest). (d # ds, rest)) (parse_elements fuel n s2)
          else if c = CHR '']'' then Some ([d], s2)
          else None
      | [] \<Rightarrow> None)"
  by (simp add: parse_dict_json_dict [OF assms])

lemma parse_elements_joined:
  assumes "ds \<noteq> []" and "length ds \<le> n" and "\<forall>d \<in> set ds. length d \<le> fuel"
  shows "parse_elements fuel n
       (newline_indent 1 @ str_join ('','' @ newline_indent 1) (map json_dict ds)
        @ newline_indent 0 @ '']'' @ rest) = Some (ds, rest)"
  using assms
proof (induction ds arbitrary: n)
  case Nil
  then show ?case by simp
next
  case (Cons d ds)
  obtain m where n: "n = Suc m" and m: "length ds \<le> m"
    using Cons.prems(2) by (cases n) auto
  have df: "length d \<le> fuel"
    using Cons.prems(3) by simp
  show ?case
  proof (cases ds)
    case Nil
    then show ?thesis
      unfolding n
      using parse_element_step [OF df, of m "newline_indent 0 @ '']'' @ rest"]
      by simp
  next
    case (Cons d' ds')
    have ih: "parse_elements fuel m
       (newline_indent 1 @ str_join ('','' @ newline_indent 1) (map json_dict ds)
        @ newline_indent 0 @ '']'' @ rest) = Some (ds, rest)"
      using Cons.IH [of m] m Cons Cons.prems(3) by simp
    have "parse_elements fuel (Suc m)
       (newline_indent 1 @ json_dict d @ ('','' @ newline_indent 1 @
          str_join ('','' @ newline_indent 1) (map json_dict ds)
          @ newline_indent 0 @ '']'' @ rest)) = Some (d # ds, rest)"
      unfolding parse_element_step [OF df] using ih by simp
    then show ?thesis
      unfolding n using Cons by simp
  qed
qed

lemma json_dict_start: "\<exists>t. json_dict d @ x = CHR ''{'' # t"
  by (simp add: json_dict_def)

lemma elements_start:
  assumes "ds \<noteq> []"
  shows "\<exists>t. str_join sep (map json_dict ds) @ x = CHR ''{'' # t"
proof -
  obtain d ds' where d: "ds = d # ds'"
    using assms by (cases ds) auto
  show ?thesis
    unfolding d using json_dict_start [of d] by (cases ds') (auto simp: json_dict_def)
qed

lemma parse_list_json_dumps:
  assumes "length ds \<le> fuel" and "\<forall>d \<in> set ds. length d \<le> fuel"
  shows "parse_list fuel (json_dumps ds) = Some (ds, [])"
proof (cases "ds = []")
  case True
  then show ?thesis by (simp add: parse_list_def json_dumps_def)
next
  case False
  let ?body = "str_join ('','' @ newline_indent 1) (map json_dict ds)
        @ newline_indent 0 @ '']''"
  obtain t where t: "?body = CHR ''{'' # t"
    using elements_start [OF False] by blast
  have 1: "skip_ws (json_dumps ds) = CHR ''['' # (newline_indent 1 @ ?body)"
    using False by (simp add: json_dumps_def)
  have 2: "skip_ws (newline_indent 1 @ ?body) = CHR ''{'' # t"
    by (simp only: skip_ws_indent t skip_ws_sig)
  have 3: "parse_elements fuel fuel (newline_indent 1 @ ?body) = Some (ds, [])"
    using parse_elements_joined [OF False assms, of "[]"] by simp
  show ?thesis
    by (simp only: parse_list_def 1 2 3 list.case) simp
qed

subsection \<open>Enough fuel\<close>

lemma length_str_join_ge:
  "\<forall>x \<in> set xs. x \<noteq> [] \<Longrightarrow> length xs \<le> length (str_join sep xs)"
proof (induction sep xs rule: str_join.induct)
  case (1 sep)
  then show ?case by simp
next
  case (2 sep x)
  then show ?case by (cases x) simp_all
next
  case (3 sep x y xs)
  then show ?case by (cases x) simp_all
qed

lemma length_str_join_mem:
  "x \<in> set xs \<Longrightarrow> length x \<le> length (str_join sep xs)"
  by (induction sep xs rule: str_join.induct) auto

lemma json_member_nonempty: "json_member kv \<noteq> []"
  by (simp add: json_member_def encode_basestring_def)

lemma length_json_dict: "length d \<le> length (json_dict d)"
proof (cases "d = []")
  case True
  then show ?thesis by simp
next
  case False
  have "length (map json_member d) \<le> length (str_join ('','' @ newline_indent 2) (map json_member d))"
    by (rule length_str_join_ge) (auto simp: json_member_nonempty)
  then show ?thesis
    using False by (simp add: json_dict_def)
qed

lemma json_dict_nonempty: "json_dict d \<noteq> []"
  by (simp add: json_dict_def)

lemma length_json_dumps: "length ds \<le> length (json_dumps ds)"
proof (cases "ds = []")
  case True
  then show ?thesis by simp
next
  case False
  have "length (map json_dict ds) \<le> length (str_join ('','' @ newline_indent 1) (map json_dict ds))"
    by (rule length_str_join_ge) (auto simp: json_dict_nonempty)
  then show ?thesis
    using False by (simp add: json_dumps_def)
qed

lemma length_json_dumps_mem:
  assumes "d \<in> set ds"
  shows "length d \<le> length (json_dumps ds)"
proof -
  have "json_dict d \<in> set (map json_dict ds)"
    using assms by simp
  then have "length (json_dict d) \<le> length (str_join ('','' @ newline_indent 1) (map json_dict ds))"
    by (rule length_str_join_mem)
  moreover have "ds \<noteq> []"
    using assms by auto
  ultimately have "length (json_dict d) \<le> length (json_dumps ds)"
    by (simp add: json_dumps_def)
  with length_json_dict [of d] show ?thesis by simp
qed

lemma json_loads_json_dumps: "json_loads (json_dumps ds) = Some ds"
  using parse_list_json_dumps [of ds "length (json_dumps ds)"]
  by (simp add: json_loads_def length_json_dumps length_json_dumps_mem)

lemma load_jobs_json_dumps: "load_jobs (json_dumps (map asdict js)) = Some js"
  by (simp add: load_jobs_def json_loads_json_dumps those_jobs_asdict del: map_map)

text \<open>The text written for the example record, as \<^verbatim>\<open>json.dump\<close> formats it.\<close>

lemma backup_text_example:
  \<open>json_dumps [asdict awkward_job] =
     ''[\<newline>'' @ ''  {\<newline>'' @ ''    "title": "A'' @ [CHR 0x5C] @ ''"b'' @
     [CHR 0x5C] @ ''"'' @ [CHR 0x5C] @ [CHR 0x5C] @ [CHR 0x5C] @ ''n'' @ [CHR 0x5C] @
     ''u0001c",\<newline>'' @ ''    "company": "",\<newline>'' @
     ''    "location": "Tampa, FL",\<newline>'' @ ''    "description": "{'' @ [CHR 0x5C] @
     ''"x'' @ [CHR 0x5C] @ ''": null}",\<newline>'' @
     ''    "url": "https://example.org/jobs/1",\<newline>'' @
     ''    "date_posted": null,\<newline>'' @ ''    "experience_level": null,\<newline>'' @
     ''    "source": "Indeed.com"\<newline>'' @ ''  }\<newline>'' @ '']''\<close>
  by code_simp

text \<open>
  C6: for every list of job records, reading back the text that the persister writes
  yields the same list, record for record and field for field, the absent optional
  fields included; and the file that \<^verbatim>\<open>save_to_json\<close> writes holds that text.
\<close>

theorem backup_round_trip:
  "load_jobs (json_dumps (map asdict js)) = Some js
   \<and> (\<forall>files'. save_to_json w self filename files = Inr files'
        \<longrightarrow> Option.bind (files' (written_name w filename)) load_jobs = Some (jobs self))"
  by (auto simp: load_jobs_json_dumps save_to_json_def written_name_def backup_name_def Let_def
      split: if_splits option.splits)

theorem backup_round_trip_witness:
  "\<exists>files'. save_to_json offline_world \<lparr>email_address = ''me@example.com'', jobs = [awkward_job]\<rparr>
       (Some ''backup.json'') Map.empty = Inr files'
     \<and> Option.bind (files' ''backup.json'') load_jobs = Some [awkward_job]"
proof -
  let ?self = "\<lparr>email_address = ''me@example.com'', jobs = [awkward_job]\<rparr>"
  obtain files' where f: "save_to_json offline_world ?self (Some ''backup.json'') Map.empty = Inr files'"
    by (simp add: save_to_json_def offline_world_def)
  from backup_round_trip [of "[]" offline_world ?self "Some ''backup.json''" Map.empty] f
  have "Option.bind (files' (written_name offline_world (Some ''backup.json''))) load_jobs
      = Some (jobs ?self)"
    by blast
  then have "Option.bind (files' ''backup.json'') load_jobs = Some [awkward_job]"
    by (simp add: written_name_def)
  with f show ?thesis by blast
qed

end
